theory Spec2Isabelle
  imports Main
begin

section \<open>Python strings\<close>

text \<open>
  Strings are lists of characters. The helpers below are the \<^verbatim>\<open>str\<close> methods the
  service calls, with their Python names.
\<close>

type_synonym path = string

definition startswith :: "string \<Rightarrow> string \<Rightarrow> bool" where
  "startswith s p = (take (length p) s = p)"

definition endswith :: "string \<Rightarrow> string \<Rightarrow> bool" where
  "endswith s x = (length x \<le> length s \<and> drop (length s - length x) s = x)"

text \<open>\<^verbatim>\<open>sub in s\<close>: \<open>sub\<close> occurs in \<open>s\<close> as a contiguous run of characters.\<close>

fun str_contains :: "string \<Rightarrow> string \<Rightarrow> bool" where
  "str_contains [] sub = (sub = [])"
| "str_contains (c # cs) sub = (startswith (c # cs) sub \<or> str_contains cs sub)"

definition ascii_uppercase :: string where
  "ascii_uppercase = ''ABCDEFGHIJKLMNOPQRSTUVWXYZ''"

definition ascii_lowercase :: string where
  "ascii_lowercase = ''abcdefghijklmnopqrstuvwxyz''"

definition lower_char :: "char \<Rightarrow> char" where
  "lower_char c =
     (case map_of (zip ascii_uppercase ascii_lowercase) c of Some d \<Rightarrow> d | None \<Rightarrow> c)"

definition upper_char :: "char \<Rightarrow> char" where
  "upper_char c =
     (case map_of (zip ascii_lowercase ascii_uppercase) c of Some d \<Rightarrow> d | None \<Rightarrow> c)"

definition lower :: "string \<Rightarrow> string" where
  "lower s = map lower_char s"

text \<open>\<^verbatim>\<open>s.capitalize()\<close>: first character upper case, the rest lower case.\<close>

definition capitalize :: "string \<Rightarrow> string" where
  "capitalize s = (case s of [] \<Rightarrow> [] | c # cs \<Rightarrow> upper_char c # lower cs)"

text \<open>\<^verbatim>\<open>s.split(c)\<close> for a one-character separator: every separator cuts.\<close>

fun split_char :: "char \<Rightarrow> string \<Rightarrow> string list" where
  "split_char sep [] = [[]]"
| "split_char sep (c # cs) =
     (if c = sep then [] # split_char sep cs
      else (case split_char sep cs of
              [] \<Rightarrow> [[c]]
            | p # ps \<Rightarrow> (c # p) # ps))"

text \<open>\<^verbatim>\<open>sep.join(parts)\<close>.\<close>

fun join :: "string \<Rightarrow> string list \<Rightarrow> string" where
  "join sep [] = []"
| "join sep [p] = p"
| "join sep (p # q # ps) = p @ sep @ join sep (q # ps)"

text \<open>\<^verbatim>\<open>s.split(sep, 1)\<close>: cut at the first occurrence of \<open>sep\<close> only; one part when
  \<open>sep\<close> does not occur.\<close>

fun split1 :: "string \<Rightarrow> string \<Rightarrow> string list" where
  "split1 sep [] = [[]]"
| "split1 sep (c # cs) =
     (if startswith (c # cs) sep then [[], drop (length sep) (c # cs)]
      else (case split1 sep cs of
              [] \<Rightarrow> [[c]]
            | p # ps \<Rightarrow> (c # p) # ps))"

text \<open>\<^verbatim>\<open>s.rfind(c)\<close> as an option: the index of the last occurrence.\<close>

fun rfind :: "char \<Rightarrow> string \<Rightarrow> nat option" where
  "rfind c [] = None"
| "rfind c (x # xs) =
     (case rfind c xs of
        Some i \<Rightarrow> Some (Suc i)
      | None \<Rightarrow> (if x = c then Some 0 else None))"

text \<open>Decimal digits of a natural number, and Python's \<^verbatim>\<open>str\<close> of an integer.\<close>

definition digit_char :: "nat \<Rightarrow> char" where
  "digit_char d = ''0123456789'' ! d"

function digits :: "nat \<Rightarrow> string" where
  "digits n = (if n < 10 then [digit_char n] else digits (n div 10) @ [digit_char (n mod 10)])"
  by pat_completeness auto
termination
  by (relation "measure id") auto

declare digits.simps [simp del]

definition str_int :: "int \<Rightarrow> string" where
  "str_int i = (if i < 0 then CHR ''-'' # digits (nat (- i)) else digits (nat i))"

section \<open>Paths\<close>

text \<open>
  \<^verbatim>\<open>os.path.join(a, b)\<close> on POSIX for two arguments: an absolute second argument
  replaces the first.
\<close>

definition os_path_join :: "path \<Rightarrow> path \<Rightarrow> path" where
  "os_path_join a b =
     (if startswith b ''/'' then b
      else if a = [] \<or> endswith a ''/'' then a @ b
      else a @ ''/'' @ b)"

text \<open>\<^verbatim>\<open>os.path.basename(p)\<close>: what follows the last slash.\<close>

definition os_path_basename :: "path \<Rightarrow> string" where
  "os_path_basename p = (case rfind CHR ''/'' p of None \<Rightarrow> p | Some i \<Rightarrow> drop (Suc i) p)"

text \<open>\<^verbatim>\<open>os.path.dirname(p)\<close>: what precedes the last slash, without trailing slashes
  unless it is the root.\<close>

definition os_path_dirname :: "path \<Rightarrow> path" where
  "os_path_dirname p =
     (case rfind CHR ''/'' p of
        None \<Rightarrow> []
      | Some i \<Rightarrow>
          (let h = take (Suc i) p
           in if h \<noteq> [] \<and> h \<noteq> replicate (length h) CHR ''/''
              then rev (dropWhile (\<lambda>c. c = CHR ''/'') (rev h)) else h))"

text \<open>
  \<^verbatim>\<open>pathlib.PurePosixPath(s).name\<close>: the last component of the path, where empty
  components and \<^verbatim>\<open>.\<close> components do not count.
\<close>

definition path_name :: "string \<Rightarrow> string" where
  "path_name s =
     (case filter (\<lambda>p. p \<noteq> [] \<and> p \<noteq> ''.'') (split_char CHR ''/'' s) of
        [] \<Rightarrow> []
      | ps \<Rightarrow> last ps)"

text \<open>
  \<^verbatim>\<open>PurePath.suffix\<close> and \<^verbatim>\<open>PurePath.stem\<close>: the name is cut at its last dot, unless
  that dot is the first or the last character of the name.
\<close>

definition path_suffix :: "string \<Rightarrow> string" where
  "path_suffix s =
     (let name = path_name s
      in case rfind CHR ''.'' name of
           None \<Rightarrow> []
         | Some i \<Rightarrow> if 0 < i \<and> i < length name - 1 then drop i name else [])"

definition path_stem :: "string \<Rightarrow> string" where
  "path_stem s =
     (let name = path_name s
      in case rfind CHR ''.'' name of
           None \<Rightarrow> name
         | Some i \<Rightarrow> if 0 < i \<and> i < length name - 1 then take i name else name)"

section \<open>Exceptions\<close>

text \<open>
  The exceptions the handlers can see. \<open>HTTPException\<close>, \<open>ValueError\<close> and \<open>Exception\<close> are
  raised by the service itself, \<open>KeyError\<close> by a missing environment variable, the three
  file errors by the file system, and \<open>Raised name text\<close> is any exception of a library
  call or of the OCR model, with its type name and its \<^verbatim>\<open>str\<close>. All of them are
  subclasses of Python's \<^verbatim>\<open>Exception\<close>.
\<close>

datatype exn =
    HTTPException nat string
  | ValueError string
  | Exception string
  | KeyError string
  | FileNotFoundError path
  | FileExistsError path
  | IsADirectoryError path
  | Raised string string

type_synonym failure = "string \<times> string"

definition raised :: "failure \<Rightarrow> exn" where
  "raised f = Raised (fst f) (snd f)"

text \<open>\<^verbatim>\<open>str(e)\<close>; an \<open>HTTPException\<close> prints as \<^verbatim>\<open>{status_code}: {detail}\<close>.\<close>

fun str_exn :: "exn \<Rightarrow> string" where
  "str_exn (HTTPException status detail) = str_int (int status) @ '': '' @ detail"
| "str_exn (ValueError m) = m"
| "str_exn (Exception m) = m"
| "str_exn (KeyError k) = [CHR 39] @ k @ [CHR 39]"
| "str_exn (FileNotFoundError p) =
     ''[Errno 2] No such file or directory: '' @ [CHR 39] @ p @ [CHR 39]"
| "str_exn (FileExistsError p) = ''[Errno 17] File exists: '' @ [CHR 39] @ p @ [CHR 39]"
| "str_exn (IsADirectoryError p) = ''[Errno 21] Is a directory: '' @ [CHR 39] @ p @ [CHR 39]"
| "str_exn (Raised n m) = m"

text \<open>\<^verbatim>\<open>type(e).__name__\<close>.\<close>

fun type_name :: "exn \<Rightarrow> string" where
  "type_name (HTTPException status detail) = ''HTTPException''"
| "type_name (ValueError m) = ''ValueError''"
| "type_name (Exception m) = ''Exception''"
| "type_name (KeyError k) = ''KeyError''"
| "type_name (FileNotFoundError p) = ''FileNotFoundError''"
| "type_name (FileExistsError p) = ''FileExistsError''"
| "type_name (IsADirectoryError p) = ''IsADirectoryError''"
| "type_name (Raised n m) = n"

text \<open>Unpacking a list into two names: \<^verbatim>\<open>a, b = xs\<close>.\<close>

fun unpack2 :: "'a list \<Rightarrow> exn + ('a \<times> 'a)" where
  "unpack2 [a, b] = Inr (a, b)"
| "unpack2 [] = Inl (ValueError ''not enough values to unpack (expected 2, got 0)'')"
| "unpack2 [a] = Inl (ValueError ''not enough values to unpack (expected 2, got 1)'')"
| "unpack2 (a # b # c # cs) = Inl (ValueError ''too many values to unpack (expected 2)'')"

section \<open>The world: file system, module globals, and a trace of effects\<close>

text \<open>
  A file holds text, or is a ZIP archive with its entries in the order they were written.
  The file system is one store from path to node, so that a path is a file or a
  directory but never both; paths are absolute and normalised. The trace records the
  effects the claims speak about, in the order they happen.
\<close>

datatype blob = Data string | Archive "(string \<times> blob) list"

datatype node = Dir | File blob

datatype event =
    Created path
  | Wrote path
  | Unlinked path
  | ClientCreated
  | GetObject string string
  | UploadFile path string string
  | Removed path

record world =
  nodes :: "(path \<times> node) list"
  s3_client :: bool
  trace :: "event list"

definition lookup :: "path \<Rightarrow> world \<Rightarrow> node option" where
  "lookup p w = map_of (nodes w) p"

definition put :: "path \<Rightarrow> node \<Rightarrow> world \<Rightarrow> world" where
  "put p n w = w\<lparr>nodes := (p, n) # filter (\<lambda>e. fst e \<noteq> p) (nodes w)\<rparr>"

definition remove :: "path \<Rightarrow> world \<Rightarrow> world" where
  "remove p w = w\<lparr>nodes := filter (\<lambda>e. fst e \<noteq> p) (nodes w)\<rparr>"

definition emit :: "event \<Rightarrow> world \<Rightarrow> world" where
  "emit e w = w\<lparr>trace := trace w @ [e]\<rparr>"

text \<open>\<open>under d p\<close>: \<open>p\<close> lies below the directory \<open>d\<close>, at any depth.\<close>

definition under :: "path \<Rightarrow> path \<Rightarrow> bool" where
  "under d p = (startswith p (d @ ''/'') \<and> length (d @ ''/'') < length p)"

definition os_path_exists :: "path \<Rightarrow> world \<Rightarrow> bool" where
  "os_path_exists p w = (lookup p w \<noteq> None)"


text \<open>
  \<^verbatim>\<open>os.path.relpath(p, start)\<close> for a path below \<open>start\<close>, which is every path that
  \<^verbatim>\<open>os.walk(start)\<close> yields; \<open>start\<close> itself gives \<^verbatim>\<open>.\<close>. Other paths are not needed and
  are left as they are.
\<close>

definition os_path_relpath :: "path \<Rightarrow> path \<Rightarrow> path" where
  "os_path_relpath p start =
     (if under start p then drop (Suc (length start)) p
      else if p = start then ''.''
      else p)"

text \<open>\<^verbatim>\<open>os.unlink(p)\<close>.\<close>

definition os_unlink :: "path \<Rightarrow> world \<Rightarrow> (exn + unit) \<times> world" where
  "os_unlink p w =
     (case lookup p w of
        None \<Rightarrow> (Inl (FileNotFoundError p), w)
      | Some Dir \<Rightarrow> (Inl (IsADirectoryError p), w)
      | Some (File b) \<Rightarrow> (Inr (), emit (Unlinked p) (remove p w)))"

text \<open>\<^verbatim>\<open>os.listdir(d)\<close>: the names directly below \<open>d\<close>, files and directories alike.\<close>

definition os_listdir :: "path \<Rightarrow> world \<Rightarrow> exn + string list" where
  "os_listdir d w =
     (case lookup d w of
        None \<Rightarrow> Inl (FileNotFoundError d)
      | Some (File b) \<Rightarrow> Inl (Raised ''NotADirectoryError'' d)
      | Some Dir \<Rightarrow>
          Inr (filter (\<lambda>n. CHR ''/'' \<notin> set n)
                 (map (\<lambda>p. os_path_relpath p d)
                    (filter (under d) (remdups (map fst (nodes w)))))))"

text \<open>
  \<^verbatim>\<open>os.walk(d)\<close>, flattened to the (root, filename) pairs of its inner loops. A path
  that is not a directory yields nothing.
\<close>

definition os_walk :: "path \<Rightarrow> world \<Rightarrow> (path \<times> string) list" where
  "os_walk d w =
     (if lookup d w = Some Dir
      then map (\<lambda>p. (os_path_dirname p, os_path_basename p))
             (filter (\<lambda>p. under d p \<and> lookup p w \<noteq> Some Dir) (remdups (map fst (nodes w))))
      else [])"

text \<open>Reading a file as text: \<^verbatim>\<open>open(p, 'r', encoding='utf-8').read()\<close>.\<close>

definition read_text :: "path \<Rightarrow> world \<Rightarrow> exn + string" where
  "read_text p w =
     (case lookup p w of
        None \<Rightarrow> Inl (FileNotFoundError p)
      | Some Dir \<Rightarrow> Inl (IsADirectoryError p)
      | Some (File (Data s)) \<Rightarrow> Inr s
      | Some (File (Archive es)) \<Rightarrow> Inl (Raised ''UnicodeDecodeError'' p))"

text \<open>The bytes of a file, as \<^verbatim>\<open>ZipFile.write\<close> copies them into an archive.\<close>

definition read_blob :: "path \<Rightarrow> world \<Rightarrow> blob" where
  "read_blob p w = (case lookup p w of Some (File b) \<Rightarrow> b | _ \<Rightarrow> Data [])"

text \<open>
  \<^verbatim>\<open>zipfile.ZipFile(p, 'w')\<close>: the archive file is created empty (or truncated) when it
  is opened; its directory must exist.
\<close>

definition zipfile_open :: "path \<Rightarrow> world \<Rightarrow> (exn + unit) \<times> world" where
  "zipfile_open p w =
     (if lookup p w = Some Dir then (Inl (IsADirectoryError p), w)
      else if lookup (os_path_dirname p) w \<noteq> Some Dir then (Inl (FileNotFoundError p), w)
      else (Inr (), put p (File (Archive [])) w))"

section \<open>What the environment answers\<close>

text \<open>
  One request sees one answer from each collaborator: the module-level model handle,
  the process environment, the names \<^verbatim>\<open>tempfile\<close> picks, the OCR model's two entry
  points, the clock, and the object store. A collaborator that fails gives the type name
  and text of the exception it raises. The OCR model reports the directory it returns
  and the directories and files it has written. The key of an uploaded log archive
  holds a time stamp and a random UUID, so \<^verbatim>\<open>generate_log_filename\<close> is the
  environment's too.

  The operating system is a collaborator as well. \<open>makedirs_fail\<close> is the error of a
  \<^verbatim>\<open>mkdir\<close> that is refused (a read-only or full file system, a missing permission).
  \<open>rmtree_fail\<close> is the error that stops \<^verbatim>\<open>shutil.rmtree\<close> half-way, together with the
  paths it had removed by then: a log folder that is a mount point loses its contents and
  then cannot be removed itself. \<open>walk_order\<close> is the order in which the file system
  hands the files of a tree to \<^verbatim>\<open>zip_folder\<close>.
\<close>

record run_outcome =
  returned :: "failure + path"
  made_dirs :: "path list"
  wrote_files :: "(path \<times> string) list"

record env =
  monkey_ocr_model :: bool
  environ :: "(string \<times> string) list"
  allowed_order :: "string list"
  tempdir :: path
  temp_random :: string
  temp_fail :: "failure option"
  write_fail :: "failure option"
  dir_random :: string
  dir_fail :: "failure option"
  single_task_recognition :: "path \<Rightarrow> path \<Rightarrow> string \<Rightarrow> run_outcome"
  parse_pdf :: "path \<Rightarrow> path \<Rightarrow> run_outcome"
  time_time :: int
  zip_fail :: "failure option"
  boto3_client :: "failure option"
  get_object :: "string \<Rightarrow> string \<Rightarrow> failure + string"
  s3_upload :: "path \<Rightarrow> string \<Rightarrow> string \<Rightarrow> failure option"
  generate_log_filename :: "path \<Rightarrow> string"
  makedirs_fail :: "failure option"
  rmtree_fail :: "(failure \<times> path list) option"
  walk_order :: "(path \<times> string) list \<Rightarrow> (path \<times> string) list"

text \<open>\<^verbatim>\<open>os.environ[k]\<close>.\<close>

definition environ_get :: "env \<Rightarrow> string \<Rightarrow> exn + string" where
  "environ_get ora k = (case map_of (environ ora) k of None \<Rightarrow> Inl (KeyError k) | Some v \<Rightarrow> Inr v)"

text \<open>
  \<^verbatim>\<open>tempfile.NamedTemporaryFile(delete=False, prefix=..., suffix=...)\<close>: an empty file
  with a name that did not exist before.
\<close>

definition NamedTemporaryFile :: "env \<Rightarrow> string \<Rightarrow> string \<Rightarrow> world \<Rightarrow> (exn + path) \<times> world" where
  "NamedTemporaryFile ora prefix suffix w =
     (let name = os_path_join (tempdir ora) (prefix @ temp_random ora @ suffix)
      in case temp_fail ora of
           Some f \<Rightarrow> (Inl (raised f), w)
         | None \<Rightarrow>
             if os_path_exists name w then (Inl (FileExistsError name), w)
             else (Inr name, emit (Created name) (put name (File (Data [])) w)))"

text \<open>\<^verbatim>\<open>temp_file.write(content)\<close>, with the file closed when the \<^verbatim>\<open>with\<close> block ends.\<close>

definition temp_file_write :: "env \<Rightarrow> path \<Rightarrow> string \<Rightarrow> world \<Rightarrow> (exn + unit) \<times> world" where
  "temp_file_write ora name data w =
     (case write_fail ora of
        Some f \<Rightarrow> (Inl (raised f), w)
      | None \<Rightarrow> (Inr (), emit (Wrote name) (put name (File (Data data)) w)))"

text \<open>\<^verbatim>\<open>tempfile.mkdtemp(prefix=...)\<close>.\<close>

definition mkdtemp :: "env \<Rightarrow> string \<Rightarrow> world \<Rightarrow> (exn + path) \<times> world" where
  "mkdtemp ora prefix w =
     (let name = os_path_join (tempdir ora) (prefix @ dir_random ora)
      in case dir_fail ora of
           Some f \<Rightarrow> (Inl (raised f), w)
         | None \<Rightarrow>
             if os_path_exists name w then (Inl (FileExistsError name), w)
             else (Inr name, put name Dir w))"

text \<open>
  What a run of the OCR model leaves behind: it creates directories where nothing
  was, and writes files where no directory is.
\<close>

definition make_dir :: "path \<Rightarrow> world \<Rightarrow> world" where
  "make_dir p w = (if lookup p w = None then put p Dir w else w)"

definition write_file :: "path \<times> string \<Rightarrow> world \<Rightarrow> world" where
  "write_file e w = (if lookup (fst e) w = Some Dir then w else put (fst e) (File (Data (snd e))) w)"

definition run_effects :: "run_outcome \<Rightarrow> world \<Rightarrow> world" where
  "run_effects out w = fold write_file (wrote_files out) (fold make_dir (made_dirs out) w)"




section \<open>tools/aws_s3.py\<close>



definition download_file_from_s3 :: "env \<Rightarrow> string \<Rightarrow> world \<Rightarrow> (exn + string) \<times> world" where
  "download_file_from_s3 ora s3_url w =
     (if \<not> startswith s3_url ''s3://'' then (Inl (ValueError ''Invalid S3 URL format''), w)
      else case unpack2 (split1 ''s3://'' s3_url) of
             Inl e \<Rightarrow> (Inl e, w)
           | Inr (scheme, path) \<Rightarrow>
               (case unpack2 (split1 ''/'' path) of
                  Inl e \<Rightarrow> (Inl e, w)
                | Inr (bucket, key) \<Rightarrow>
                    (case boto3_client ora of
                       Some f \<Rightarrow> (Inl (raised f), w)
                     | None \<Rightarrow>
                         (let w1 = emit (GetObject bucket key) (emit ClientCreated w)
                          in case get_object ora bucket key of
                               Inl f \<Rightarrow> (Inl (raised f), w1)
                             | Inr body \<Rightarrow> (Inr body, w1)))))"




section \<open>api/main.py\<close>

record upload =
  filename :: string
  payload :: string

record task_response =
  success :: bool
  task_type :: string
  content :: string
  message :: "string option"
  config :: "string option"

record parse_response =
  parse_success :: bool
  parse_message :: string
  output_dir :: "string option"
  files :: "string list option"
  download_url :: "string option"

record file_response =
  response_path :: path
  response_filename :: string
  media_type :: string

definition temp_dir :: path where
  "temp_dir = ''/workspace/MonkeyOCR/app/temp''"

text \<open>
  \<^verbatim>\<open>app.mount("/static", StaticFiles(directory=temp_dir))\<close>: a request for
  \<^verbatim>\<open>/static/name\<close> is answered with the file \<open>name\<close> of that directory, if it is there.
\<close>

definition static_mount :: "string \<Rightarrow> world \<Rightarrow> path option" where
  "static_mount url w =
     (if startswith url ''/static/''
      then (let file_path = os_path_join temp_dir (drop (length ''/static/'') url)
            in case lookup file_path w of Some (File b) \<Rightarrow> Some file_path | _ \<Rightarrow> None)
      else None)"

definition allowed_extensions :: "string list" where
  "allowed_extensions = [''.pdf'', ''.jpg'', ''.jpeg'', ''.png'']"

text \<open>The \<^verbatim>\<open>with tempfile.NamedTemporaryFile(...)\<close> block of both upload handlers.\<close>

definition stage_upload :: "env \<Rightarrow> string \<Rightarrow> string \<Rightarrow> string \<Rightarrow> world \<Rightarrow> (exn + path) \<times> world" where
  "stage_upload ora prefix suffix data w =
     (case NamedTemporaryFile ora prefix suffix w of
        (Inl e, w1) \<Rightarrow> (Inl e, w1)
      | (Inr temp_file_path, w1) \<Rightarrow>
          (case temp_file_write ora temp_file_path data w1 of
             (Inl e, w2) \<Rightarrow> (Inl e, w2)
           | (Inr u, w2) \<Rightarrow> (Inr temp_file_path, w2)))"

text \<open>
  \<^verbatim>\<open>finally: os.unlink(temp_file_path)\<close>: runs whatever the \<^verbatim>\<open>try\<close> block did; an
  exception of its own replaces the block's outcome.
\<close>

definition finally_unlink :: "path \<Rightarrow> (exn + 'a) \<times> world \<Rightarrow> (exn + 'a) \<times> world" where
  "finally_unlink temp_file_path rw =
     (case os_unlink temp_file_path (snd rw) of
        (Inl e, w') \<Rightarrow> (Inl e, w')
      | (Inr u, w') \<Rightarrow> (fst rw, w'))"

text \<open>The inner \<^verbatim>\<open>try\<close> block of \<^verbatim>\<open>perform_ocr_task\<close>.\<close>

definition perform_ocr_task_try :: "env \<Rightarrow> path \<Rightarrow> string \<Rightarrow> world \<Rightarrow> (exn + task_response) \<times> world" where
  "perform_ocr_task_try ora temp_file_path tt w =
     (case mkdtemp ora (''monkeyocr_'' @ tt @ ''_'') w of
        (Inl e, w1) \<Rightarrow> (Inl e, w1)
      | (Inr out_dir, w1) \<Rightarrow>
          (let out = single_task_recognition ora temp_file_path out_dir tt;
               w2 = run_effects out w1
           in case returned out of
                Inl f \<Rightarrow> (Inl (raised f), w2)
              | Inr result_dir \<Rightarrow>
                  (case os_listdir result_dir w2 of
                     Inl e \<Rightarrow> (Inl e, w2)
                   | Inr names \<Rightarrow>
                       (case filter (\<lambda>f. endswith f (''_'' @ tt @ ''_result.md'')) names of
                          [] \<Rightarrow> (Inl (Exception ''No result file generated''), w2)
                        | first # others \<Rightarrow>
                            (case read_text (os_path_join result_dir first) w2 of
                               Inl e \<Rightarrow> (Inl e, w2)
                             | Inr text \<Rightarrow>
                                 (case environ_get ora ''MONKEYOCR_CONFIG_FILE_PATH'' of
                                    Inl e \<Rightarrow> (Inl e, w2)
                                  | Inr config_path \<Rightarrow>
                                      (Inr \<lparr>success = True, task_type = tt, content = text,
                                            message = Some (capitalize tt @
                                              '' extraction completed successfully''),
                                            config = Some (os_path_basename config_path)\<rparr>,
                                       w2)))))))"

text \<open>The outer \<^verbatim>\<open>try\<close> block of \<^verbatim>\<open>perform_ocr_task\<close>: its value is the response it
  returns or the exception that leaves it.\<close>

definition perform_ocr_task_body :: "env \<Rightarrow> upload \<Rightarrow> string \<Rightarrow> world \<Rightarrow> (exn + task_response) \<times> world" where
  "perform_ocr_task_body ora file tt w =
     (if \<not> monkey_ocr_model ora then (Inl (HTTPException 500 ''Model not initialized''), w)
      else let file_ext = lower (path_suffix (filename file))
           in if file_ext \<notin> set allowed_extensions
              then (Inl (HTTPException 400
                      (''Unsupported file type: '' @ file_ext @ ''. Allowed: '' @
                       join '', '' (allowed_order ora))), w)
              else case stage_upload ora (path_stem (filename file)) file_ext (payload file) w of
                     (Inl e, w1) \<Rightarrow> (Inl e, w1)
                   | (Inr temp_file_path, w1) \<Rightarrow>
                       finally_unlink temp_file_path
                         (perform_ocr_task_try ora temp_file_path tt w1))"

definition task_failure :: "string \<Rightarrow> string \<Rightarrow> task_response" where
  "task_failure tt text =
     \<lparr>success = False, task_type = tt, content = [], message = Some text, config = None\<rparr>"

definition perform_ocr_task :: "env \<Rightarrow> upload \<Rightarrow> string \<Rightarrow> world \<Rightarrow> task_response \<times> world" where
  "perform_ocr_task ora file tt w =
     (case perform_ocr_task_body ora file tt w of
        (Inl e, w') \<Rightarrow> (task_failure tt (''OCR task failed: '' @ str_exn e), w')
      | (Inr response, w') \<Rightarrow> (response, w'))"

definition extract_text :: "env \<Rightarrow> upload \<Rightarrow> world \<Rightarrow> task_response \<times> world" where
  "extract_text ora file w = perform_ocr_task ora file ''text'' w"

definition extract_formula :: "env \<Rightarrow> upload \<Rightarrow> world \<Rightarrow> task_response \<times> world" where
  "extract_formula ora file w = perform_ocr_task ora file ''formula'' w"

definition extract_table :: "env \<Rightarrow> upload \<Rightarrow> world \<Rightarrow> task_response \<times> world" where
  "extract_table ora file w = perform_ocr_task ora file ''table'' w"

definition extract_text_from_s3 :: "env \<Rightarrow> string \<Rightarrow> world \<Rightarrow> task_response \<times> world" where
  "extract_text_from_s3 ora s3_url w =
     (case download_file_from_s3 ora s3_url w of
        (Inl e, w1) \<Rightarrow>
          (task_failure ''text'' (''Error occurred: '' @ type_name e @ '' - '' @ str_exn e), w1)
      | (Inr file_bytes, w1) \<Rightarrow>
          perform_ocr_task ora \<lparr>filename = ''from_s3.pdf'', payload = file_bytes\<rparr> ''text'' w1)"

text \<open>The name of one archive entry: the \<^verbatim>\<open>if\<close>/\<^verbatim>\<open>elif\<close> chain of \<^verbatim>\<open>parse_document\<close>.\<close>

definition new_filename :: "string \<Rightarrow> path \<Rightarrow> path \<Rightarrow> string \<Rightarrow> string" where
  "new_filename original_name result_dir file_path fname =
     (if endswith fname ''.md'' then original_name @ ''.md''
      else if endswith fname ''_content_list.json'' then original_name @ ''_content_list.json''
      else if endswith fname ''_middle.json'' then original_name @ ''_middle.json''
      else if endswith fname ''_model.pdf'' then original_name @ ''_model.pdf''
      else if endswith fname ''_layout.pdf'' then original_name @ ''_layout.pdf''
      else if endswith fname ''_spans.pdf'' then original_name @ ''_spans.pdf''
      else let rel_path = os_path_relpath file_path result_dir
           in if str_contains rel_path ''images/''
              then ''images/'' @ original_name @ ''_'' @ os_path_basename rel_path
              else original_name @ ''_'' @ fname)"

text \<open>The \<^verbatim>\<open>with zipfile.ZipFile(zip_path, 'w', ...)\<close> block of \<^verbatim>\<open>parse_document\<close>.\<close>

definition zip_entries :: "string \<Rightarrow> path \<Rightarrow> world \<Rightarrow> (string \<times> blob) list" where
  "zip_entries original_name result_dir w =
     map (\<lambda>(root, fname).
            let file_path = os_path_join root fname
            in (new_filename original_name result_dir file_path fname, read_blob file_path w))
       (os_walk result_dir w)"

text \<open>The inner \<^verbatim>\<open>try\<close> block of \<^verbatim>\<open>parse_document\<close>.\<close>

definition parse_document_try :: "env \<Rightarrow> path \<Rightarrow> string \<Rightarrow> world \<Rightarrow> (exn + parse_response) \<times> world" where
  "parse_document_try ora temp_file_path original_name w =
     (case mkdtemp ora ''monkeyocr_parse_'' w of
        (Inl e, w1) \<Rightarrow> (Inl e, w1)
      | (Inr out_dir, w1) \<Rightarrow>
          (let out = parse_pdf ora temp_file_path out_dir;
               w2 = run_effects out w1
           in case returned out of
                Inl f \<Rightarrow> (Inl (raised f), w2)
              | Inr result_dir \<Rightarrow>
                  (let listing =
                         (if os_path_exists result_dir w2
                          then map (\<lambda>(root, fname).
                                      os_path_relpath (os_path_join root fname) result_dir)
                                 (os_walk result_dir w2)
                          else []);
                       zip_filename = original_name @ ''_parsed_'' @ str_int (time_time ora) @ ''.zip'';
                       zip_path = os_path_join ''/app/tmp'' zip_filename
                   in case zipfile_open zip_path w2 of
                        (Inl e, w3) \<Rightarrow> (Inl e, w3)
                      | (Inr u, w3) \<Rightarrow>
                          (case zip_fail ora of
                             Some f \<Rightarrow> (Inl (raised f), w3)
                           | None \<Rightarrow>
                               (Inr \<lparr>parse_success = True,
                                     parse_message = ''Document parsing completed successfully'',
                                     output_dir = Some result_dir,
                                     files = Some listing,
                                     download_url = Some (''/static/'' @ zip_filename)\<rparr>,
                                put zip_path
                                  (File (Archive (zip_entries original_name result_dir w3))) w3)))))"

definition parse_document_body :: "env \<Rightarrow> upload \<Rightarrow> world \<Rightarrow> (exn + parse_response) \<times> world" where
  "parse_document_body ora file w =
     (if \<not> monkey_ocr_model ora then (Inl (HTTPException 500 ''Model not initialized''), w)
      else if \<not> endswith (lower (filename file)) ''.pdf''
      then (Inl (HTTPException 400 ''Only PDF files are supported for document parsing''), w)
      else let original_name = join ''.'' (butlast (split_char CHR ''.'' (filename file)))
           in case stage_upload ora ''tmp'' ''.pdf'' (payload file) w of
                (Inl e, w1) \<Rightarrow> (Inl e, w1)
              | (Inr temp_file_path, w1) \<Rightarrow>
                  finally_unlink temp_file_path
                    (parse_document_try ora temp_file_path original_name w1))"

text \<open>\<open>Inl\<close> is the exception that leaves the handler: the framework turns it into an
  HTTP error response.\<close>

definition parse_document :: "env \<Rightarrow> upload \<Rightarrow> world \<Rightarrow> (exn + parse_response) \<times> world" where
  "parse_document ora file w =
     (case parse_document_body ora file w of
        (Inl e, w') \<Rightarrow> (Inl (HTTPException 500 (''Parsing failed: '' @ str_exn e)), w')
      | (Inr response, w') \<Rightarrow> (Inr response, w'))"

definition download_file :: "string \<Rightarrow> world \<Rightarrow> exn + file_response" where
  "download_file fname w =
     (let file_path = os_path_join ''/app/tmp'' fname
      in if \<not> os_path_exists file_path w then Inl (HTTPException 404 ''File not found'')
         else Inr \<lparr>response_path = file_path, response_filename = fname,
                   media_type = ''application/octet-stream''\<rparr>)"



section \<open>A sample deployment\<close>

text \<open>
  One concrete environment and file system, used to run the handlers: the model answers
  a single-task job with one result file, and a full parse with a report directory that
  holds a markdown file, a content list and one image.
\<close>

definition demo_recognition :: "path \<Rightarrow> path \<Rightarrow> string \<Rightarrow> run_outcome" where
  "demo_recognition input_path out_dir tt =
     \<lparr>returned = Inr out_dir, made_dirs = [],
      wrote_files = [(out_dir @ ''/page_'' @ tt @ ''_result.md'', ''hello'')]\<rparr>"

definition empty_recognition :: "path \<Rightarrow> path \<Rightarrow> string \<Rightarrow> run_outcome" where
  "empty_recognition input_path out_dir tt =
     \<lparr>returned = Inr out_dir, made_dirs = [], wrote_files = [(out_dir @ ''/page.log'', ''none'')]\<rparr>"

definition demo_parse_pdf :: "path \<Rightarrow> path \<Rightarrow> run_outcome" where
  "demo_parse_pdf input_path out_dir =
     \<lparr>returned = Inr (out_dir @ ''/report''),
      made_dirs = [out_dir @ ''/report'', out_dir @ ''/report/images''],
      wrote_files = [(out_dir @ ''/report/report.md'', ''# Report''),
                     (out_dir @ ''/report/report_content_list.json'', ''[]''),
                     (out_dir @ ''/report/images/fig1.png'', ''PNG'')]\<rparr>"

definition demo_env :: env where
  "demo_env =
     \<lparr>monkey_ocr_model = True,
      environ = [(''MONKEYOCR_CONFIG_FILE_PATH'', ''/cfg/model_configs.yaml''),
                 (''LOG_FOLDER_PATH'', ''/logs''),
                 (''OUTPUT_ZIP_FILE_PATH'', ''/out/logs.zip''),
                 (''AWS_ACCESS_KEY_ID'', ''id''),
                 (''AWS_SECRET_ACCESS_KEY'', ''secret''),
                 (''AWS_S3_BUCKET_NAME'', ''bucket'')],
      allowed_order = allowed_extensions,
      tempdir = ''/tmp'',
      temp_random = ''k3x9'',
      temp_fail = None,
      write_fail = None,
      dir_random = ''q7'',
      dir_fail = None,
      single_task_recognition = demo_recognition,
      parse_pdf = demo_parse_pdf,
      time_time = 1700000000,
      zip_fail = None,
      boto3_client = None,
      get_object = (\<lambda>bucket key. Inr ''PDF''),
      s3_upload = (\<lambda>file_path bucket key. None),
      generate_log_filename = (\<lambda>file_path. ''stamp_logs_id.zip''),
      makedirs_fail = None,
      rmtree_fail = None,
      walk_order = (\<lambda>found. found)\<rparr>"

definition demo_world :: world where
  "demo_world =
     \<lparr>nodes = [(''/tmp'', Dir), (''/app/tmp'', Dir), (''/workspace/MonkeyOCR/app/temp'', Dir),
               (''/logs'', Dir), (''/logs/a.log'', File (Data ''started'')), (''/out'', Dir)],
      s3_client = False,
      trace = []\<rparr>"

section \<open>Notions used in the statements and proofs\<close>

text \<open>
  \<open>is_file p w\<close>: the path \<open>p\<close> is a regular file of \<open>w\<close>. \<open>undrained S w w'\<close>: from \<open>w\<close> to
  \<open>w'\<close> no path outside \<open>S\<close> has changed, no path at all has disappeared, and no
  directory tree has been removed. \<open>events_since w w'\<close>: the events of \<open>w'\<close> that
  came after those of \<open>w\<close>. \<open>no_upload evs\<close>: no upload to the object store is
  among the events \<open>evs\<close>.
\<close>

definition is_file :: "path \<Rightarrow> world \<Rightarrow> bool" where
  "is_file p w = (case lookup p w of Some (File b) \<Rightarrow> True | _ \<Rightarrow> False)"




text \<open>
  The naming policy of the Archive Builder as the specification words it: an ordered list
  of (test, renamer) pairs over the path of a file relative to the result directory; the
  first pair whose test holds names the entry, and a file that no pair takes is named
  \<^verbatim>\<open>{seed}_{originalFilename}\<close>. The six suffix rules test the file name. The test of
  the seventh rule is a parameter: \<open>has_images_segment\<close> reads "contains an
  \<^verbatim>\<open>images/\<close> segment" as a path component named \<^verbatim>\<open>images\<close>, and
  \<open>contains_images\<close> is the substring test of the source.
\<close>

type_synonym naming_rule = "(string \<Rightarrow> bool) \<times> (string \<Rightarrow> string \<Rightarrow> string)"

definition suffix_rule :: "string \<Rightarrow> naming_rule" where
  "suffix_rule sfx = (\<lambda>rel. endswith (os_path_basename rel) sfx, \<lambda>seed rel. seed @ sfx)"

definition images_rule :: "(string \<Rightarrow> bool) \<Rightarrow> naming_rule" where
  "images_rule in_images =
     (in_images, \<lambda>seed rel. ''images/'' @ seed @ ''_'' @ os_path_basename rel)"

definition naming_policy :: "(string \<Rightarrow> bool) \<Rightarrow> naming_rule list" where
  "naming_policy in_images =
     [suffix_rule ''.md'', suffix_rule ''_content_list.json'', suffix_rule ''_middle.json'',
      suffix_rule ''_model.pdf'', suffix_rule ''_layout.pdf'', suffix_rule ''_spans.pdf'',
      images_rule in_images]"

fun first_match :: "naming_rule list \<Rightarrow> string \<Rightarrow> string \<Rightarrow> string" where
  "first_match [] seed rel = seed @ ''_'' @ os_path_basename rel"
| "first_match (r # rs) seed rel =
     (if fst r rel then snd r seed rel else first_match rs seed rel)"

definition has_images_segment :: "string \<Rightarrow> bool" where
  "has_images_segment rel = (''images'' \<in> set (butlast (split_char CHR ''/'' rel)))"

definition spec_entry_name :: "string \<Rightarrow> string \<Rightarrow> string" where
  "spec_entry_name seed rel = first_match (naming_policy has_images_segment) seed rel"

definition contains_images :: "string \<Rightarrow> bool" where
  "contains_images rel = str_contains rel ''images/''"

text \<open>
  More sample data: a result directory with a markdown file, a content list and one
  image; four uploads; the file system after an upload has been staged at \<open>p\<close>; an
  environment whose model writes no result file; one whose object store refuses the
  upload; one that also puts the output archive inside the log folder, on a file system
  that lists the older file first; one whose log folder is a mount point, so that
  \<^verbatim>\<open>shutil.rmtree\<close> empties it and then fails to remove it; and the file systems a
  full parse of \<^verbatim>\<open>doc.pdf\<close> goes through.
\<close>

definition report_world :: world where
  "report_world =
     \<lparr>nodes = [(''/o/r'', Dir), (''/o/r/report.md'', File (Data ''# Report'')),
               (''/o/r/report_content_list.json'', File (Data ''[]'')),
               (''/o/r/images'', Dir), (''/o/r/images/fig1.png'', File (Data ''PNG''))],
      s3_client = False, trace = []\<rparr>"

definition demo_upload :: upload where
  "demo_upload = \<lparr>filename = ''scan.PDF'', payload = ''bytes''\<rparr>"

definition demo_notes :: upload where
  "demo_notes = \<lparr>filename = ''notes.txt'', payload = ''bytes''\<rparr>"

definition demo_pdf :: upload where
  "demo_pdf = \<lparr>filename = ''doc.pdf'', payload = ''bytes''\<rparr>"

definition demo_png :: upload where
  "demo_png = \<lparr>filename = ''doc.png'', payload = ''bytes''\<rparr>"

definition staged_world :: "path \<Rightarrow> world" where
  "staged_world p =
     \<lparr>nodes = (p, File (Data ''bytes'')) # nodes demo_world, s3_client = False,
      trace = [Created p, Wrote p]\<rparr>"

definition quiet_env :: env where
  "quiet_env = demo_env\<lparr>single_task_recognition := empty_recognition\<rparr>"




definition parsed_nodes :: "(path \<times> node) list" where
  "parsed_nodes =
     [(''/tmp/monkeyocr_parse_q7/report/images/fig1.png'', File (Data ''PNG'')),
      (''/tmp/monkeyocr_parse_q7/report/report_content_list.json'', File (Data ''[]'')),
      (''/tmp/monkeyocr_parse_q7/report/report.md'', File (Data ''# Report'')),
      (''/tmp/monkeyocr_parse_q7/report/images'', Dir),
      (''/tmp/monkeyocr_parse_q7/report'', Dir),
      (''/tmp/monkeyocr_parse_q7'', Dir)]"

definition parsed_archive :: node where
  "parsed_archive =
     File (Archive [(''images/doc_fig1.png'', Data ''PNG''),
                    (''doc_content_list.json'', Data ''[]''),
                    (''doc.md'', Data ''# Report'')])"

definition ran_world :: world where
  "ran_world =
     \<lparr>nodes = parsed_nodes @ (''/tmp/tmpk3x9.pdf'', File (Data ''bytes'')) # nodes demo_world,
      s3_client = False,
      trace = [Created ''/tmp/tmpk3x9.pdf'', Wrote ''/tmp/tmpk3x9.pdf'']\<rparr>"

definition zipped_world :: "node \<Rightarrow> world" where
  "zipped_world archive =
     \<lparr>nodes = (''/app/tmp/doc_parsed_1700000000.zip'', archive) # nodes ran_world,
      s3_client = False,
      trace = [Created ''/tmp/tmpk3x9.pdf'', Wrote ''/tmp/tmpk3x9.pdf'']\<rparr>"

section \<open>The staged file is removed on every exit\<close>

lemma map_of_filter_fst:
  "map_of (filter (\<lambda>e. fst e \<noteq> p) xs) q = (if q = p then None else map_of xs q)"
  by (induction xs) auto

lemma lookup_put [simp]: "lookup q (put p n w) = (if q = p then Some n else lookup q w)"
  by (simp add: lookup_def put_def map_of_filter_fst)

lemma lookup_remove [simp]: "lookup q (remove p w) = (if q = p then None else lookup q w)"
  by (simp add: lookup_def remove_def map_of_filter_fst)

lemma lookup_emit [simp]: "lookup q (emit e w) = lookup q w"
  by (simp add: lookup_def emit_def)

lemma trace_put [simp]: "trace (put p n w) = trace w"
  by (simp add: put_def)

lemma trace_remove [simp]: "trace (remove p w) = trace w"
  by (simp add: remove_def)

lemma trace_emit [simp]: "trace (emit e w) = trace w @ [e]"
  by (simp add: emit_def)

lemma is_file_put: "is_file p w \<Longrightarrow> is_file p (put q (File b) w)"
  by (simp add: is_file_def)

lemma is_file_make_dir: "is_file p w \<Longrightarrow> is_file p (make_dir q w)"
  by (auto simp: is_file_def make_dir_def split: option.splits node.splits)

lemma is_file_write_file: "is_file p w \<Longrightarrow> is_file p (write_file e w)"
  by (auto simp: is_file_def write_file_def split: option.splits node.splits)

lemma trace_make_dir [simp]: "trace (make_dir q w) = trace w"
  by (simp add: make_dir_def)

lemma trace_write_file [simp]: "trace (write_file e w) = trace w"
  by (simp add: write_file_def)

lemma is_file_fold_make_dir: "is_file p w \<Longrightarrow> is_file p (fold make_dir ds w)"
  by (induction ds arbitrary: w) (simp_all add: is_file_make_dir)

lemma is_file_fold_write_file: "is_file p w \<Longrightarrow> is_file p (fold write_file es w)"
  by (induction es arbitrary: w) (simp_all add: is_file_write_file)

lemma trace_fold_make_dir [simp]: "trace (fold make_dir ds w) = trace w"
  by (induction ds arbitrary: w) simp_all

lemma trace_fold_write_file [simp]: "trace (fold write_file es w) = trace w"
  by (induction es arbitrary: w) simp_all

lemma is_file_run_effects: "is_file p w \<Longrightarrow> is_file p (run_effects out w)"
  by (simp add: run_effects_def is_file_fold_make_dir is_file_fold_write_file)

lemma trace_run_effects [simp]: "trace (run_effects out w) = trace w"
  by (simp add: run_effects_def)

lemma mkdtemp_keeps:
  "is_file p w \<Longrightarrow> is_file p (snd (mkdtemp ora prefix w)) \<and> trace (snd (mkdtemp ora prefix w)) = trace w"
  by (auto simp: mkdtemp_def Let_def is_file_def os_path_exists_def split: option.splits)

lemma zipfile_open_keeps:
  "is_file p w \<Longrightarrow> is_file p (snd (zipfile_open z w)) \<and> trace (snd (zipfile_open z w)) = trace w"
  by (auto simp: zipfile_open_def is_file_def split: option.splits)

lemma perform_ocr_task_try_keeps:
  assumes "is_file p w"
  shows "is_file p (snd (perform_ocr_task_try ora t tt w)) \<and>
         trace (snd (perform_ocr_task_try ora t tt w)) = trace w"
proof (cases "mkdtemp ora (''monkeyocr_'' @ tt @ ''_'') w")
  case (Pair r w1)
  with mkdtemp_keeps [OF assms, of ora "''monkeyocr_'' @ tt @ ''_''"]
  have k: "is_file p w1" "trace w1 = trace w" by simp_all
  show ?thesis
  proof (cases r)
    case (Inl e)
    with Pair k show ?thesis by (simp add: perform_ocr_task_try_def)
  next
    case (Inr out_dir)
    with Pair k show ?thesis
      by (simp add: perform_ocr_task_try_def Let_def is_file_run_effects
          split: sum.splits list.splits)
  qed
qed

lemma parse_document_try_keeps:
  assumes "is_file p w"
  shows "is_file p (snd (parse_document_try ora t nm w)) \<and>
         trace (snd (parse_document_try ora t nm w)) = trace w"
proof (cases "mkdtemp ora ''monkeyocr_parse_'' w")
  case (Pair r w1)
  with mkdtemp_keeps [OF assms, of ora "''monkeyocr_parse_''"]
  have k: "is_file p w1" "trace w1 = trace w" by simp_all
  show ?thesis
  proof (cases r)
    case (Inl e)
    with Pair k show ?thesis by (simp add: parse_document_try_def)
  next
    case (Inr out_dir)
    let ?w2 = "run_effects (parse_pdf ora t out_dir) w1"
    have k2: "is_file p ?w2" "trace ?w2 = trace w" using k by (simp_all add: is_file_run_effects)
    show ?thesis
    proof (cases "returned (parse_pdf ora t out_dir)")
      case (Inl f)
      with Pair Inr k2 show ?thesis by (simp add: parse_document_try_def Let_def)
    next
      case (Inr result_dir)
      let ?z = "os_path_join ''/app/tmp'' (nm @ ''_parsed_'' @ str_int (time_time ora) @ ''.zip'')"
      obtain r3 w3 where z: "zipfile_open ?z ?w2 = (r3, w3)" by (cases "zipfile_open ?z ?w2")
      with zipfile_open_keeps [OF k2(1), of ?z] k2
      have k3: "is_file p w3" "trace w3 = trace w" by simp_all
      from Pair \<open>r = Inr out_dir\<close> Inr z k3 show ?thesis
        by (simp add: parse_document_try_def Let_def is_file_put split: sum.splits option.splits)
    qed
  qed
qed

lemma stage_upload_staged:
  assumes "stage_upload ora prefix suffix data w = (Inr p, w1)"
  shows "is_file p w1 \<and> trace w1 = trace w @ [Created p, Wrote p]"
  using assms
  by (auto simp: stage_upload_def NamedTemporaryFile_def temp_file_write_def Let_def is_file_def
      split: option.splits if_splits)

lemma finally_unlink_file:
  assumes "is_file p (snd rw)"
  shows "finally_unlink p rw = (fst rw, emit (Unlinked p) (remove p (snd rw)))"
  using assms
  by (auto simp: finally_unlink_def os_unlink_def is_file_def split: option.splits node.splits)

lemma unlinked_after:
  assumes "is_file p w2" "trace w2 = trace w @ [Created p, Wrote p]"
  shows "lookup p (snd (finally_unlink p (r, w2))) = None \<and>
         count_list (trace (snd (finally_unlink p (r, w2)))) (Unlinked p) =
           Suc (count_list (trace w) (Unlinked p))"
  using assms by (simp add: finally_unlink_file)

text \<open>
  Claim C1. In a single-task request and in a full-parse request whose upload has been
  staged at the temporary path \<open>p\<close> (the \<^verbatim>\<open>with\<close> block of the handler has
  completed), the \<^verbatim>\<open>finally\<close> clause deletes \<open>p\<close> exactly once before the handler
  exits: afterwards \<open>p\<close> is not in the file system, and the trace holds one more
  \<open>Unlinked p\<close> than before the request. Nothing is assumed about what the \<^verbatim>\<open>try\<close>
  block did, so the statement covers a success response, an in-band failure and, for
  \<^verbatim>\<open>parse_document\<close>, the exception raised to the framework.
\<close>

theorem staged_input_deleted_once:
  "(monkey_ocr_model ora \<and> lower (path_suffix (filename file)) \<in> set allowed_extensions \<and>
    stage_upload ora (path_stem (filename file)) (lower (path_suffix (filename file)))
      (payload file) w = (Inr p, w1)
    \<longrightarrow> lookup p (snd (perform_ocr_task ora file tt w)) = None \<and>
        count_list (trace (snd (perform_ocr_task ora file tt w))) (Unlinked p) =
          Suc (count_list (trace w) (Unlinked p))) \<and>
   (monkey_ocr_model ora \<and> endswith (lower (filename file)) ''.pdf'' \<and>
    stage_upload ora ''tmp'' ''.pdf'' (payload file) w = (Inr q, w2)
    \<longrightarrow> lookup q (snd (parse_document ora file w)) = None \<and>
        count_list (trace (snd (parse_document ora file w))) (Unlinked q) =
          Suc (count_list (trace w) (Unlinked q)))"
proof (intro conjI impI)
  assume a: "monkey_ocr_model ora \<and> lower (path_suffix (filename file)) \<in> set allowed_extensions \<and>
    stage_upload ora (path_stem (filename file)) (lower (path_suffix (filename file)))
      (payload file) w = (Inr p, w1)"
  then have s: "is_file p w1" "trace w1 = trace w @ [Created p, Wrote p]"
    using stage_upload_staged by blast+
  obtain r w2 where t: "perform_ocr_task_try ora p tt w1 = (r, w2)"
    by (cases "perform_ocr_task_try ora p tt w1")
  with perform_ocr_task_try_keeps [OF s(1), of ora p tt] s
  have k: "is_file p w2" "trace w2 = trace w @ [Created p, Wrote p]" by simp_all
  have b: "perform_ocr_task_body ora file tt w = finally_unlink p (r, w2)"
    using a t by (simp add: perform_ocr_task_body_def Let_def)
  have "snd (perform_ocr_task ora file tt w) = snd (finally_unlink p (r, w2))"
    by (simp add: perform_ocr_task_def b split: prod.splits sum.splits)
  with unlinked_after [OF k, of r]
  show "lookup p (snd (perform_ocr_task ora file tt w)) = None"
    and "count_list (trace (snd (perform_ocr_task ora file tt w))) (Unlinked p) =
          Suc (count_list (trace w) (Unlinked p))" by simp_all
next
  assume a: "monkey_ocr_model ora \<and> endswith (lower (filename file)) ''.pdf'' \<and>
    stage_upload ora ''tmp'' ''.pdf'' (payload file) w = (Inr q, w2)"
  then have s: "is_file q w2" "trace w2 = trace w @ [Created q, Wrote q]"
    using stage_upload_staged by blast+
  let ?nm = "join ''.'' (butlast (split_char CHR ''.'' (filename file)))"
  obtain r w3 where t: "parse_document_try ora q ?nm w2 = (r, w3)"
    by (cases "parse_document_try ora q ?nm w2")
  with parse_document_try_keeps [OF s(1), of ora q ?nm] s
  have k: "is_file q w3" "trace w3 = trace w @ [Created q, Wrote q]" by simp_all
  have b: "parse_document_body ora file w = finally_unlink q (r, w3)"
    using a t by (simp add: parse_document_body_def Let_def)
  have "snd (parse_document ora file w) = snd (finally_unlink q (r, w3))"
    by (simp add: parse_document_def b split: prod.splits sum.splits)
  with unlinked_after [OF k, of r]
  show "lookup q (snd (parse_document ora file w)) = None"
    and "count_list (trace (snd (parse_document ora file w))) (Unlinked q) =
          Suc (count_list (trace w) (Unlinked q))" by simp_all
qed

section \<open>Facts about the sample deployment\<close>

lemma demo_env_fields:
  "monkey_ocr_model demo_env = True"
  "environ demo_env = [(''MONKEYOCR_CONFIG_FILE_PATH'', ''/cfg/model_configs.yaml''),
                 (''LOG_FOLDER_PATH'', ''/logs''),
                 (''OUTPUT_ZIP_FILE_PATH'', ''/out/logs.zip''),
                 (''AWS_ACCESS_KEY_ID'', ''id''),
                 (''AWS_SECRET_ACCESS_KEY'', ''secret''),
                 (''AWS_S3_BUCKET_NAME'', ''bucket'')]"
  "allowed_order demo_env = allowed_extensions"
  "tempdir demo_env = ''/tmp''"
  "temp_random demo_env = ''k3x9''"
  "temp_fail demo_env = None"
  "write_fail demo_env = None"
  "dir_random demo_env = ''q7''"
  "dir_fail demo_env = None"
  "single_task_recognition demo_env = demo_recognition"
  "parse_pdf demo_env = demo_parse_pdf"
  "time_time demo_env = 1700000000"
  "zip_fail demo_env = None"
  "boto3_client demo_env = None"
  "get_object demo_env = (\<lambda>bucket key. Inr ''PDF'')"
  "s3_upload demo_env = (\<lambda>file_path bucket key. None)"
  "generate_log_filename demo_env = (\<lambda>file_path. ''stamp_logs_id.zip'')"
  "makedirs_fail demo_env = None"
  "rmtree_fail demo_env = None"
  "walk_order demo_env = (\<lambda>found. found)"
  by (simp_all add: demo_env_def)

lemmas fs_defs = lookup_def put_def remove_def emit_def os_path_exists_def startswith_def
  endswith_def os_path_join_def

lemma demo_stage:
  "stage_upload demo_env ''scan'' ''.pdf'' ''bytes'' demo_world =
     (Inr ''/tmp/scank3x9.pdf'',
      \<lparr>nodes = (''/tmp/scank3x9.pdf'', File (Data ''bytes'')) # nodes demo_world,
       s3_client = False,
       trace = [Created ''/tmp/scank3x9.pdf'', Wrote ''/tmp/scank3x9.pdf'']\<rparr>)"
  by (simp add: stage_upload_def NamedTemporaryFile_def temp_file_write_def Let_def
      demo_env_fields fs_defs demo_world_def)

section \<open>String facts and the object-storage locator\<close>

lemma startswith_iff: "startswith s p \<longleftrightarrow> (\<exists>b. s = p @ b)"
proof
  assume "startswith s p"
  then have "s = p @ drop (length p) s"
    by (metis append_take_drop_id startswith_def)
  then show "\<exists>b. s = p @ b" ..
next
  assume "\<exists>b. s = p @ b"
  then show "startswith s p" by (auto simp: startswith_def)
qed

lemma endswith_iff: "endswith s x \<longleftrightarrow> (\<exists>a. s = a @ x)"
proof
  assume e: "endswith s x"
  then have "s = take (length s - length x) s @ x"
    by (metis append_take_drop_id endswith_def)
  then show "\<exists>a. s = a @ x" ..
next
  assume "\<exists>a. s = a @ x"
  then show "endswith s x" by (auto simp: endswith_def)
qed

lemma str_contains_iff: "str_contains s sub \<longleftrightarrow> (\<exists>a b. s = a @ sub @ b)"
proof (induction s)
  case Nil
  then show ?case by auto
next
  case (Cons c cs)
  show ?case
  proof
    assume "str_contains (c # cs) sub"
    then consider "startswith (c # cs) sub" | "str_contains cs sub" by auto
    then show "\<exists>a b. c # cs = a @ sub @ b"
    proof cases
      case 1
      then obtain b where "c # cs = sub @ b" by (auto simp: startswith_iff)
      then have "c # cs = [] @ sub @ b" by simp
      then show ?thesis by blast
    next
      case 2
      then obtain a b where "cs = a @ sub @ b" using Cons.IH by blast
      then have "c # cs = (c # a) @ sub @ b" by simp
      then show ?thesis by blast
    qed
  next
    assume "\<exists>a b. c # cs = a @ sub @ b"
    then obtain a b where ab: "c # cs = a @ sub @ b" by blast
    show "str_contains (c # cs) sub"
    proof (cases a)
      case Nil
      with ab have "startswith (c # cs) sub" by (auto simp: startswith_iff)
      then show ?thesis by simp
    next
      case (Cons x xs)
      with ab have "cs = xs @ sub @ b" by simp
      then have "str_contains cs sub" using Cons.IH by blast
      then show ?thesis by simp
    qed
  qed
qed

lemma endswith_contains: "endswith s (x @ y) \<Longrightarrow> str_contains s x"
  by (auto simp: endswith_iff str_contains_iff)

lemma unpack2_Inr: "unpack2 xs = Inr (a, b) \<Longrightarrow> xs = [a, b]"
  by (cases xs rule: unpack2.cases) auto

lemma split1_two: "split1 sep s = [a, b] \<Longrightarrow> s = a @ sep @ b"
proof (induction s arbitrary: a)
  case Nil
  then show ?case by simp
next
  case (Cons c cs)
  show ?case
  proof (cases "startswith (c # cs) sep")
    case True
    with Cons.prems have "a = []" "b = drop (length sep) (c # cs)" by simp_all
    moreover from True have "c # cs = sep @ drop (length sep) (c # cs)"
      by (metis append_take_drop_id startswith_def)
    ultimately show ?thesis by simp
  next
    case False
    with Cons.prems obtain a' where "split1 sep cs = [a', b]" "a = c # a'"
      by (auto split: list.splits)
    with Cons.IH show ?thesis by simp
  qed
qed

lemma split1_char_first: "split1 [c] s = [a, b] \<Longrightarrow> c \<notin> set a"
proof (induction s arbitrary: a)
  case Nil
  then show ?case by simp
next
  case (Cons x xs)
  show ?case
  proof (cases "startswith (x # xs) [c]")
    case True
    with Cons.prems show ?thesis by simp
  next
    case False
    with Cons.prems obtain a' where s: "split1 [c] xs = [a', b]" "a = x # a'"
      by (auto split: list.splits)
    from False have "x \<noteq> c" by (simp add: startswith_def)
    with s Cons.IH show ?thesis by auto
  qed
qed

lemma split1_scheme:
  assumes "startswith s sep" "sep \<noteq> []"
  shows "split1 sep s = [[], drop (length sep) s]"
proof (cases s)
  case Nil
  with assms show ?thesis by (simp add: startswith_def)
next
  case (Cons c cs)
  with assms show ?thesis by simp
qed

text \<open>
  Claim C8. A URL that does not start with \<^verbatim>\<open>s3://\<close> fails with the \<open>ValueError\<close>
  \<^verbatim>\<open>Invalid S3 URL format\<close> and leaves the world as it was: no client is created and
  no object is requested. Whenever the download changes the world at all, the URL has the
  shape \<^verbatim>\<open>s3://bucket/key\<close> with no slash in the bucket, and what happened is the
  creation of one client and one request for that bucket and key.
\<close>

theorem download_rejects_foreign_locator:
  "(\<not> startswith s3_url ''s3://'' \<longrightarrow>
      download_file_from_s3 ora s3_url w = (Inl (ValueError ''Invalid S3 URL format''), w)) \<and>
   (snd (download_file_from_s3 ora s3_url w) \<noteq> w \<longrightarrow>
      (\<exists>bucket key. s3_url = ''s3://'' @ bucket @ ''/'' @ key \<and> CHR ''/'' \<notin> set bucket \<and>
         trace (snd (download_file_from_s3 ora s3_url w)) =
           trace w @ [ClientCreated, GetObject bucket key]))"
proof (intro conjI impI)
  assume "\<not> startswith s3_url ''s3://''"
  then show "download_file_from_s3 ora s3_url w = (Inl (ValueError ''Invalid S3 URL format''), w)"
    by (simp add: download_file_from_s3_def)
next
  assume ch: "snd (download_file_from_s3 ora s3_url w) \<noteq> w"
  then have st: "startswith s3_url ''s3://''"
    by (auto simp: download_file_from_s3_def split: if_splits)
  let ?rest = "drop (length ''s3://'') s3_url"
  have sp: "split1 ''s3://'' s3_url = [[], ?rest]"
    using st by (rule split1_scheme) simp
  from st have "take (length ''s3://'') s3_url = ''s3://''" unfolding startswith_def .
  then have url: "s3_url = ''s3://'' @ ?rest"
    by (metis append_take_drop_id)
  obtain bucket key where bk: "unpack2 (split1 ''/'' ?rest) = Inr (bucket, key)"
    using ch st sp
    by (cases "unpack2 (split1 ''/'' ?rest)")
       (auto simp: download_file_from_s3_def)
  then have two: "split1 ''/'' ?rest = [bucket, key]" by (rule unpack2_Inr)
  have "?rest = bucket @ ''/'' @ key" using split1_two [OF two] .
  with url have u: "s3_url = ''s3://'' @ bucket @ ''/'' @ key" by simp
  have nb: "CHR ''/'' \<notin> set bucket" using split1_char_first [OF two] .
  have "trace (snd (download_file_from_s3 ora s3_url w)) =
           trace w @ [ClientCreated, GetObject bucket key]"
    using ch st sp bk
    by (auto simp: download_file_from_s3_def Let_def split: option.splits sum.splits)
  with u nb show "\<exists>bucket key. s3_url = ''s3://'' @ bucket @ ''/'' @ key \<and> CHR ''/'' \<notin> set bucket \<and>
         trace (snd (download_file_from_s3 ora s3_url w)) =
           trace w @ [ClientCreated, GetObject bucket key]" by blast
qed

lemmas string_defs = startswith_def endswith_def lower_def lower_char_def upper_char_def
  ascii_uppercase_def ascii_lowercase_def capitalize_def
  path_suffix_def path_stem_def path_name_def os_path_join_def os_path_basename_def
  os_path_dirname_def


section \<open>Validation of the upload\<close>

lemma str_int_400: "str_int 400 = ''400''"
  by (simp add: str_int_def digits.simps digit_char_def)

lemma str_int_500: "str_int 500 = ''500''"
  by (simp add: str_int_def digits.simps digit_char_def)

lemma perform_ocr_task_unsupported:
  assumes "monkey_ocr_model ora"
    and "lower (path_suffix (filename file)) \<notin> set allowed_extensions"
  shows "perform_ocr_task ora file tt w =
     (\<lparr>success = False, task_type = tt, content = [],
       message = Some (''OCR task failed: 400: Unsupported file type: '' @
                       lower (path_suffix (filename file)) @ ''. Allowed: '' @
                       join '', '' (allowed_order ora)),
       config = None\<rparr>, w)"
  using assms
  by (simp add: perform_ocr_task_def perform_ocr_task_body_def Let_def task_failure_def
      str_int_400)






text \<open>
  Claim C5. With the model loaded, a full-parse request whose file name does not end in
  \<^verbatim>\<open>.pdf\<close> (lower-cased) leaves the handler as an \<open>HTTPException\<close>, which the
  framework reports as an HTTP error: the validation's status 400 is caught by the outer
  \<^verbatim>\<open>except\<close> and raised again with status 500 and the original text in the detail.
  The file system is untouched. The single-task family answers its own unsupported type
  with a response whose \<open>success\<close> is \<open>False\<close>.
\<close>

theorem parse_rejects_non_pdf_by_raising:
  "monkey_ocr_model ora \<Longrightarrow>
   (\<not> endswith (lower (filename file)) ''.pdf'' \<longrightarrow>
      parse_document ora file w =
        (Inl (HTTPException 500
           ''Parsing failed: 400: Only PDF files are supported for document parsing''), w)) \<and>
   (lower (path_suffix (filename other)) \<notin> set allowed_extensions \<longrightarrow>
      success (fst (perform_ocr_task ora other tt w)) = False \<and>
      message (fst (perform_ocr_task ora other tt w)) =
        Some (''OCR task failed: 400: Unsupported file type: '' @
              lower (path_suffix (filename other)) @ ''. Allowed: '' @
              join '', '' (allowed_order ora)))"
  by (simp add: parse_document_def parse_document_body_def str_int_400
      perform_ocr_task_unsupported)

lemma stage_upload_no_http: "fst (stage_upload ora prefix suffix data w) \<noteq> Inl (HTTPException s d)"
  by (auto simp: stage_upload_def NamedTemporaryFile_def temp_file_write_def Let_def raised_def
      split: option.splits)

lemma mkdtemp_no_http: "fst (mkdtemp ora prefix w) \<noteq> Inl (HTTPException s d)"
  by (auto simp: mkdtemp_def Let_def raised_def split: option.splits)

lemma os_listdir_no_http: "os_listdir d w \<noteq> Inl (HTTPException s x)"
  by (auto simp: os_listdir_def split: option.splits node.splits)

lemma read_text_no_http: "read_text p w \<noteq> Inl (HTTPException s x)"
  by (auto simp: read_text_def split: option.splits node.splits blob.splits)

lemma environ_get_no_http: "environ_get ora k \<noteq> Inl (HTTPException s x)"
  by (auto simp: environ_get_def split: option.splits)

lemma perform_ocr_task_try_no_http:
  "fst (perform_ocr_task_try ora p tt w) \<noteq> Inl (HTTPException s d)"
proof (cases "mkdtemp ora (''monkeyocr_'' @ tt @ ''_'') w")
  case (Pair r w1)
  show ?thesis
  proof (cases r)
    case (Inl e)
    with Pair mkdtemp_no_http [of ora "''monkeyocr_'' @ tt @ ''_''" w s d]
    show ?thesis by (simp add: perform_ocr_task_try_def)
  next
    case (Inr out_dir)
    with Pair show ?thesis
      using os_listdir_no_http read_text_no_http environ_get_no_http
      by (auto simp: perform_ocr_task_try_def Let_def raised_def
          split: sum.splits list.splits)
  qed
qed

lemma finally_unlink_no_http:
  "fst rw \<noteq> Inl (HTTPException s d) \<Longrightarrow> fst (finally_unlink p rw) \<noteq> Inl (HTTPException s d)"
  by (auto simp: finally_unlink_def os_unlink_def split: option.splits node.splits)

text \<open>
  Claim C10. When the download succeeds, the S3 endpoint is the single-task pipeline run
  on an upload named \<^verbatim>\<open>from_s3.pdf\<close> that carries the downloaded bytes; the suffix of
  that name is in the allow-list, so whatever the bytes are, the pipeline never leaves
  through the unsupported-file-type exception (status 400).
\<close>

theorem s3_upload_passes_validation:
  "download_file_from_s3 ora s3_url w = (Inr file_bytes, w1) \<Longrightarrow>
   extract_text_from_s3 ora s3_url w =
     perform_ocr_task ora \<lparr>filename = ''from_s3.pdf'', payload = file_bytes\<rparr> ''text'' w1 \<and>
   lower (path_suffix ''from_s3.pdf'') \<in> set allowed_extensions \<and>
   (\<forall>detail. fst (perform_ocr_task_body ora \<lparr>filename = ''from_s3.pdf'', payload = file_bytes\<rparr>
                    ''text'' w1) \<noteq> Inl (HTTPException 400 detail))"
proof (intro conjI allI)
  assume d: "download_file_from_s3 ora s3_url w = (Inr file_bytes, w1)"
  then show "extract_text_from_s3 ora s3_url w =
     perform_ocr_task ora \<lparr>filename = ''from_s3.pdf'', payload = file_bytes\<rparr> ''text'' w1"
    by (simp add: extract_text_from_s3_def)
  show ok: "lower (path_suffix ''from_s3.pdf'') \<in> set allowed_extensions"
    by (simp add: string_defs allowed_extensions_def)
  fix detail
  let ?f = "\<lparr>filename = ''from_s3.pdf'', payload = file_bytes\<rparr>"
  show "fst (perform_ocr_task_body ora ?f ''text'' w1) \<noteq> Inl (HTTPException 400 detail)"
  proof (cases "monkey_ocr_model ora")
    case False
    then show ?thesis by (simp add: perform_ocr_task_body_def)
  next
    case True
    let ?st = "stage_upload ora (path_stem (filename ?f)) (lower (path_suffix (filename ?f)))
                 (payload ?f) w1"
    obtain r w2 where st: "?st = (r, w2)" by (cases ?st)
    show ?thesis
    proof (cases r)
      case (Inl e)
      with st stage_upload_no_http [of ora "path_stem (filename ?f)"
          "lower (path_suffix (filename ?f))" "payload ?f" w1 400 detail]
      have "e \<noteq> HTTPException 400 detail" by auto
      with True ok st Inl show ?thesis by (simp add: perform_ocr_task_body_def Let_def)
    next
      case (Inr p)
      with True ok st have "perform_ocr_task_body ora ?f ''text'' w1 =
          finally_unlink p (perform_ocr_task_try ora p ''text'' w2)"
        by (simp add: perform_ocr_task_body_def Let_def)
      then show ?thesis
        using finally_unlink_no_http [OF perform_ocr_task_try_no_http] by simp
    qed
  qed
qed

section \<open>Archive entry names\<close>

lemma split_char_nonempty: "split_char c s \<noteq> []"
  by (induction s) (auto split: list.splits)

lemma split_char_first:
  "split_char c s = p # ps \<Longrightarrow> ps \<noteq> [] \<Longrightarrow> \<exists>b. s = p @ c # b"
proof (induction s arbitrary: p ps)
  case Nil
  then show ?case by simp
next
  case (Cons x xs)
  show ?case
  proof (cases "x = c")
    case True
    with Cons.prems show ?thesis by auto
  next
    case False
    with Cons.prems obtain p' where r: "split_char c xs = p' # ps" "p = x # p'"
      by (auto split: list.splits)
    with Cons.IH [OF r(1) Cons.prems(2)] show ?thesis by auto
  qed
qed

lemma split_char_segment:
  "y \<in> set (butlast (split_char c s)) \<Longrightarrow> \<exists>a b. s = a @ y @ c # b"
proof (induction s)
  case Nil
  then show ?case by simp
next
  case (Cons x xs)
  obtain p ps where r: "split_char c xs = p # ps"
    using split_char_nonempty [of c xs] by (cases "split_char c xs") auto
  show ?case
  proof (cases "x = c")
    case True
    with Cons.prems r have "y = [] \<or> y \<in> set (butlast (split_char c xs))" by auto
    then show ?thesis
    proof
      assume "y = []"
      with True have "x # xs = [] @ y @ c # xs" by simp
      then show ?thesis by blast
    next
      assume "y \<in> set (butlast (split_char c xs))"
      then obtain a b where "xs = a @ y @ c # b" using Cons.IH by blast
      then have "x # xs = (x # a) @ y @ c # b" by simp
      then show ?thesis by blast
    qed
  next
    case False
    with Cons.prems r have ne: "ps \<noteq> []" and y: "y = x # p \<or> y \<in> set (butlast ps)"
      by (auto split: if_splits)
    from y show ?thesis
    proof
      assume "y = x # p"
      moreover obtain b where "xs = p @ c # b" using split_char_first [OF r ne] by blast
      ultimately have "x # xs = [] @ y @ c # b" by simp
      then show ?thesis by blast
    next
      assume "y \<in> set (butlast ps)"
      with r ne have "y \<in> set (butlast (split_char c xs))" by simp
      then obtain a b where "xs = a @ y @ c # b" using Cons.IH by blast
      then have "x # xs = (x # a) @ y @ c # b" by simp
      then show ?thesis by blast
    qed
  qed
qed

lemma segment_contains: "has_images_segment rel \<Longrightarrow> contains_images rel"
proof -
  assume "has_images_segment rel"
  then obtain a b where "rel = a @ ''images'' @ CHR ''/'' # b"
    unfolding has_images_segment_def using split_char_segment by blast
  then have "rel = a @ ''images/'' @ b" by simp
  then show ?thesis unfolding contains_images_def str_contains_iff by blast
qed

lemma new_filename_first_match:
  assumes "os_path_basename (os_path_relpath file_path result_dir) = fname"
  shows "new_filename seed result_dir file_path fname =
         first_match (naming_policy contains_images) seed (os_path_relpath file_path result_dir)"
  using assms
  by (simp add: new_filename_def naming_policy_def suffix_rule_def images_rule_def
      contains_images_def Let_def)

lemma report_entries:
  "map fst (zip_entries ''doc'' ''/o/r'' report_world) =
     [''doc.md'', ''doc_content_list.json'', ''images/doc_fig1.png'']"
  by (simp add: zip_entries_def os_walk_def report_world_def lookup_def under_def
      startswith_def endswith_def os_path_dirname_def os_path_basename_def os_path_join_def
      new_filename_def os_path_relpath_def Let_def)

text \<open>
  What \<^verbatim>\<open>parse_document\<close> computes. For a file whose name is the base name of its path
  relative to the result directory (as for every pair \<^verbatim>\<open>os.walk\<close> yields), the entry
  name is the first match of the ordered policy in which rule 7 applies when the
  relative path contains the substring \<^verbatim>\<open>images/\<close>. Every path with an
  \<^verbatim>\<open>images\<close> component satisfies that test. A result directory holding
  \<^verbatim>\<open>report.md\<close>, \<^verbatim>\<open>report_content_list.json\<close> and \<^verbatim>\<open>images/fig1.png\<close>, with seed
  \<^verbatim>\<open>doc\<close>, gives the entries \<^verbatim>\<open>doc.md\<close>, \<^verbatim>\<open>doc_content_list.json\<close> and
  \<^verbatim>\<open>images/doc_fig1.png\<close>.
\<close>

theorem new_filename_policy:
  "(os_path_basename (os_path_relpath file_path result_dir) = fname \<longrightarrow>
      new_filename seed result_dir file_path fname =
        first_match (naming_policy contains_images) seed (os_path_relpath file_path result_dir)) \<and>
   (has_images_segment rel \<longrightarrow> contains_images rel) \<and>
   map fst (zip_entries ''doc'' ''/o/r'' report_world) =
     [''doc.md'', ''doc_content_list.json'', ''images/doc_fig1.png'']"
  using new_filename_first_match segment_contains report_entries by blast

text \<open>
  Claim C4. The source departs from the stated policy at a directory whose name only
  ends in \<^verbatim>\<open>images\<close>. The file \<^verbatim>\<open>ximages/a.png\<close> has no \<^verbatim>\<open>images/\<close> segment and
  no suffix rule takes it, so the stated policy gives it the default name
  \<^verbatim>\<open>doc_a.png\<close>. The source tests \<^verbatim>\<open>'images/' in rel_path\<close>, which the directory
  name \<^verbatim>\<open>ximages/\<close> passes, and files the entry as \<^verbatim>\<open>images/doc_a.png\<close>, in a
  folder the file was never in. The comments of that branch (\<^verbatim>\<open>keep relative path
  structure\<close>, \<^verbatim>\<open>Keep images in images subfolder\<close>) say that the \<^verbatim>\<open>images\<close> folder
  is meant.
\<close>

theorem images_substring_misfiles_entry:
  "os_path_relpath ''/o/r/ximages/a.png'' ''/o/r'' = ''ximages/a.png'' \<and>
   new_filename ''doc'' ''/o/r'' ''/o/r/ximages/a.png'' ''a.png'' = ''images/doc_a.png'' \<and>
   spec_entry_name ''doc'' ''ximages/a.png'' = ''doc_a.png''"
  by (simp add: spec_entry_name_def naming_policy_def suffix_rule_def images_rule_def
      has_images_segment_def new_filename_def os_path_relpath_def under_def startswith_def
      endswith_def os_path_basename_def Let_def)

section \<open>A job without a result file\<close>

lemma no_result_files:
  assumes "\<forall>n\<in>set names. \<not> str_contains n (''_'' @ tt @ ''_result'')"
  shows "filter (\<lambda>f. endswith f (''_'' @ tt @ ''_result.md'')) names = []"
proof -
  have "\<not> endswith n (''_'' @ tt @ ''_result.md'')" if "n \<in> set names" for n
  proof
    assume "endswith n (''_'' @ tt @ ''_result.md'')"
    then have "endswith n ((''_'' @ tt @ ''_result'') @ ''.md'')" by simp
    then have "str_contains n (''_'' @ tt @ ''_result'')" by (rule endswith_contains)
    with assms that show False by blast
  qed
  then show ?thesis by (simp add: filter_empty_conv)
qed

text \<open>
  Claim C3. When a single-task job has run and returned a result directory that can be
  listed, and no name in it contains \<^verbatim>\<open>_{task_kind}_result\<close>, the handler returns
  the failure response with \<open>success = False\<close> and the message
  \<^verbatim>\<open>OCR task failed: No result file generated\<close>. The handler's value is a response, so
  the failure is data and not a transport-level error.
\<close>

theorem missing_result_is_in_band_failure:
  assumes "monkey_ocr_model ora"
    and "lower (path_suffix (filename file)) \<in> set allowed_extensions"
    and "stage_upload ora (path_stem (filename file)) (lower (path_suffix (filename file)))
           (payload file) w = (Inr p, w1)"
    and "mkdtemp ora (''monkeyocr_'' @ tt @ ''_'') w1 = (Inr out_dir, w2)"
    and "returned (single_task_recognition ora p out_dir tt) = Inr result_dir"
    and "os_listdir result_dir (run_effects (single_task_recognition ora p out_dir tt) w2) = Inr names"
    and "\<forall>n\<in>set names. \<not> str_contains n (''_'' @ tt @ ''_result'')"
  shows "fst (perform_ocr_task ora file tt w) =
     \<lparr>success = False, task_type = tt, content = [],
      message = Some ''OCR task failed: No result file generated'', config = None\<rparr>"
proof -
  let ?w3 = "run_effects (single_task_recognition ora p out_dir tt) w2"
  have t: "perform_ocr_task_try ora p tt w1 = (Inl (Exception ''No result file generated''), ?w3)"
    using assms(4,5,6) no_result_files [OF assms(7)]
    by (simp add: perform_ocr_task_try_def Let_def)
  have s: "is_file p w1" using stage_upload_staged [OF assms(3)] by simp
  have k: "is_file p ?w3"
    using perform_ocr_task_try_keeps [OF s, of ora p tt] t by simp
  have "perform_ocr_task_body ora file tt w =
          finally_unlink p (Inl (Exception ''No result file generated''), ?w3)"
    using assms(1,2,3) t by (simp add: perform_ocr_task_body_def Let_def)
  then have "fst (perform_ocr_task_body ora file tt w) = Inl (Exception ''No result file generated'')"
    using k by (simp add: finally_unlink_file)
  then obtain w' where
    "perform_ocr_task_body ora file tt w = (Inl (Exception ''No result file generated''), w')"
    by (metis prod.collapse)
  then show ?thesis
    by (simp add: perform_ocr_task_def task_failure_def)
qed

section \<open>The claims at the sample deployment\<close>

lemma demo_suffixes:
  "lower (path_suffix (filename demo_upload)) = ''.pdf''"
  "path_stem (filename demo_upload) = ''scan''"
  "lower (path_suffix (filename demo_notes)) = ''.txt''"
  "lower (filename demo_pdf) = ''doc.pdf''"
  "lower (filename demo_png) = ''doc.png''"
  "payload demo_upload = ''bytes''" "payload demo_pdf = ''bytes''"
  by (simp_all add: demo_upload_def demo_notes_def demo_pdf_def demo_png_def string_defs)

lemma demo_stage_any:
  assumes "tempdir ora = ''/tmp''" "temp_random ora = ''k3x9''" "temp_fail ora = None"
    "write_fail ora = None"
  shows "stage_upload ora ''scan'' ''.pdf'' ''bytes'' demo_world =
           (Inr ''/tmp/scank3x9.pdf'', staged_world ''/tmp/scank3x9.pdf'')"
    and "stage_upload ora ''tmp'' ''.pdf'' ''bytes'' demo_world =
           (Inr ''/tmp/tmpk3x9.pdf'', staged_world ''/tmp/tmpk3x9.pdf'')"
  using assms
  by (simp_all add: stage_upload_def NamedTemporaryFile_def temp_file_write_def Let_def
      fs_defs demo_world_def staged_world_def)

text \<open>
  Claim C1 at the sample deployment: the upload \<^verbatim>\<open>scan.PDF\<close> of a text request
  and the upload \<^verbatim>\<open>doc.pdf\<close> of a full parse are staged, and both staged files are gone
  after one deletion each.
\<close>

theorem staged_input_deleted_once_witness:
  "monkey_ocr_model demo_env \<and>
   lower (path_suffix (filename demo_upload)) \<in> set allowed_extensions \<and>
   endswith (lower (filename demo_pdf)) ''.pdf'' \<and>
   fst (stage_upload demo_env ''scan'' ''.pdf'' ''bytes'' demo_world) = Inr ''/tmp/scank3x9.pdf'' \<and>
   fst (stage_upload demo_env ''tmp'' ''.pdf'' ''bytes'' demo_world) = Inr ''/tmp/tmpk3x9.pdf'' \<and>
   lookup ''/tmp/scank3x9.pdf'' (snd (perform_ocr_task demo_env demo_upload ''text'' demo_world)) = None \<and>
   count_list (trace (snd (perform_ocr_task demo_env demo_upload ''text'' demo_world)))
     (Unlinked ''/tmp/scank3x9.pdf'') = 1 \<and>
   lookup ''/tmp/tmpk3x9.pdf'' (snd (parse_document demo_env demo_pdf demo_world)) = None \<and>
   count_list (trace (snd (parse_document demo_env demo_pdf demo_world)))
     (Unlinked ''/tmp/tmpk3x9.pdf'') = 1"
proof -
  let ?P = "''/tmp/scank3x9.pdf''" and ?Q = "''/tmp/tmpk3x9.pdf''"
  have m: "monkey_ocr_model demo_env" by (simp add: demo_env_fields)
  have e: "lower (path_suffix (filename demo_upload)) \<in> set allowed_extensions"
    by (simp add: demo_suffixes allowed_extensions_def)
  have f: "endswith (lower (filename demo_pdf)) ''.pdf''"
    by (simp add: demo_suffixes endswith_def)
  have s1: "stage_upload demo_env (path_stem (filename demo_upload))
              (lower (path_suffix (filename demo_upload))) (payload demo_upload) demo_world =
            (Inr ?P, staged_world ?P)"
    by (simp add: demo_suffixes demo_stage_any demo_env_fields)
  have s2: "stage_upload demo_env ''tmp'' ''.pdf'' (payload demo_pdf) demo_world =
            (Inr ?Q, staged_world ?Q)"
    by (simp add: demo_suffixes demo_stage_any demo_env_fields)
  have t0: "trace demo_world = []" by (simp add: demo_world_def)
  from staged_input_deleted_once [where tt = "''text''", THEN conjunct1, THEN mp, OF conjI [OF m conjI [OF e s1]]]
    staged_input_deleted_once [THEN conjunct2, THEN mp, OF conjI [OF m conjI [OF f s2]]]
    m e f s1 s2 t0
  show ?thesis by (simp add: demo_suffixes)
qed

text \<open>
  Claim C8 at an \<^verbatim>\<open>http\<close> URL and at \<^verbatim>\<open>s3://bucket/a/b.png\<close>.
\<close>

theorem download_rejects_foreign_locator_witness:
  "\<not> startswith ''http://bucket/key'' ''s3://'' \<and>
   download_file_from_s3 demo_env ''http://bucket/key'' demo_world =
     (Inl (ValueError ''Invalid S3 URL format''), demo_world) \<and>
   snd (download_file_from_s3 demo_env ''s3://bucket/a/b.png'' demo_world) \<noteq> demo_world \<and>
   (\<exists>bucket key. ''s3://bucket/a/b.png'' = ''s3://'' @ bucket @ ''/'' @ key \<and>
      CHR ''/'' \<notin> set bucket \<and>
      trace (snd (download_file_from_s3 demo_env ''s3://bucket/a/b.png'' demo_world)) =
        trace demo_world @ [ClientCreated, GetObject bucket key])"
proof -
  have a: "\<not> startswith ''http://bucket/key'' ''s3://''" by (simp add: startswith_def)
  have b: "snd (download_file_from_s3 demo_env ''s3://bucket/a/b.png'' demo_world) \<noteq> demo_world"
    by (simp add: download_file_from_s3_def startswith_def demo_env_fields emit_def
        demo_world_def Let_def)
  from a b download_rejects_foreign_locator [of "''http://bucket/key''" demo_env demo_world]
    download_rejects_foreign_locator [of "''s3://bucket/a/b.png''" demo_env demo_world]
  show ?thesis by blast
qed

lemma demo_download:
  "download_file_from_s3 demo_env ''s3://bucket/a/b.png'' demo_world =
     (Inr ''PDF'', demo_world\<lparr>trace := [ClientCreated, GetObject ''bucket'' ''a/b.png'']\<rparr>)"
  by (simp add: download_file_from_s3_def startswith_def demo_env_fields emit_def
        demo_world_def Let_def)

text \<open>
  Claim C10 at the sample deployment, for the object \<^verbatim>\<open>s3://bucket/a/b.png\<close>.
\<close>

theorem s3_upload_passes_validation_witness:
  "fst (download_file_from_s3 demo_env ''s3://bucket/a/b.png'' demo_world) = Inr ''PDF'' \<and>
   extract_text_from_s3 demo_env ''s3://bucket/a/b.png'' demo_world =
     perform_ocr_task demo_env \<lparr>filename = ''from_s3.pdf'', payload = ''PDF''\<rparr> ''text''
       (demo_world\<lparr>trace := [ClientCreated, GetObject ''bucket'' ''a/b.png'']\<rparr>) \<and>
   lower (path_suffix ''from_s3.pdf'') \<in> set allowed_extensions \<and>
   (\<forall>detail. fst (perform_ocr_task_body demo_env \<lparr>filename = ''from_s3.pdf'', payload = ''PDF''\<rparr>
      ''text'' (demo_world\<lparr>trace := [ClientCreated, GetObject ''bucket'' ''a/b.png'']\<rparr>))
        \<noteq> Inl (HTTPException 400 detail))"
  using s3_upload_passes_validation [OF demo_download] by (simp add: demo_download)

text \<open>
  Claim C5 at the sample deployment: \<^verbatim>\<open>doc.png\<close> sent to the full parse, and
  \<^verbatim>\<open>notes.txt\<close> sent to a single-task endpoint.
\<close>

theorem parse_rejects_non_pdf_by_raising_witness:
  "monkey_ocr_model demo_env \<and>
   \<not> endswith (lower (filename demo_png)) ''.pdf'' \<and>
   lower (path_suffix (filename demo_notes)) \<notin> set allowed_extensions \<and>
   parse_document demo_env demo_png demo_world =
     (Inl (HTTPException 500
        ''Parsing failed: 400: Only PDF files are supported for document parsing''), demo_world) \<and>
   success (fst (perform_ocr_task demo_env demo_notes ''text'' demo_world)) = False \<and>
   message (fst (perform_ocr_task demo_env demo_notes ''text'' demo_world)) =
     Some ''OCR task failed: 400: Unsupported file type: .txt. Allowed: .pdf, .jpg, .jpeg, .png''"
  using parse_rejects_non_pdf_by_raising [of demo_env demo_png demo_world demo_notes "''text''"]
  by (simp add: demo_suffixes demo_env_fields allowed_extensions_def endswith_def)

text \<open>
  The entry name of the file \<^verbatim>\<open>images/fig1.png\<close>.
\<close>

theorem new_filename_policy_example:
  "os_path_basename (os_path_relpath ''/o/r/images/fig1.png'' ''/o/r'') = ''fig1.png'' \<and>
   has_images_segment ''images/fig1.png'' \<and>
   new_filename ''doc'' ''/o/r'' ''/o/r/images/fig1.png'' ''fig1.png'' =
     first_match (naming_policy contains_images) ''doc''
       (os_path_relpath ''/o/r/images/fig1.png'' ''/o/r'') \<and>
   contains_images ''images/fig1.png''"
proof -
  have a: "os_path_basename (os_path_relpath ''/o/r/images/fig1.png'' ''/o/r'') = ''fig1.png''"
    by (simp add: os_path_relpath_def under_def startswith_def os_path_basename_def)
  have b: "has_images_segment ''images/fig1.png''"
    by (simp add: has_images_segment_def)
  from a b new_filename_policy [of "''/o/r/images/fig1.png''" "''/o/r''" "''fig1.png''" "''doc''" "''images/fig1.png''"]
  show ?thesis by blast
qed

lemma quiet_env_fields:
  "monkey_ocr_model quiet_env = True"
  "tempdir quiet_env = ''/tmp''"
  "temp_random quiet_env = ''k3x9''"
  "temp_fail quiet_env = None"
  "write_fail quiet_env = None"
  "dir_random quiet_env = ''q7''"
  "dir_fail quiet_env = None"
  "single_task_recognition quiet_env = empty_recognition"
  by (simp_all add: quiet_env_def demo_env_fields)


lemma quiet_mkdtemp:
  "mkdtemp quiet_env (''monkeyocr_'' @ ''text'' @ ''_'') (staged_world ''/tmp/scank3x9.pdf'') =
     (Inr ''/tmp/monkeyocr_text_q7'',
      put ''/tmp/monkeyocr_text_q7'' Dir (staged_world ''/tmp/scank3x9.pdf''))"
  by (simp add: mkdtemp_def quiet_env_fields Let_def os_path_join_def startswith_def
      endswith_def os_path_exists_def lookup_def staged_world_def demo_world_def)

lemma quiet_listdir:
  "os_listdir ''/tmp/monkeyocr_text_q7''
     (run_effects (empty_recognition ''/tmp/scank3x9.pdf'' ''/tmp/monkeyocr_text_q7'' ''text'')
        (put ''/tmp/monkeyocr_text_q7'' Dir (staged_world ''/tmp/scank3x9.pdf''))) =
   Inr [''page.log'']"
  by (simp add: os_listdir_def run_effects_def empty_recognition_def write_file_def
      lookup_def put_def staged_world_def demo_world_def under_def startswith_def
      os_path_relpath_def)

text \<open>
  Claim C3 at the sample deployment with a model that writes only \<^verbatim>\<open>page.log\<close>.
\<close>

theorem missing_result_is_in_band_failure_witness:
  "monkey_ocr_model quiet_env \<and>
   lower (path_suffix (filename demo_upload)) \<in> set allowed_extensions \<and>
   fst (stage_upload quiet_env ''scan'' ''.pdf'' ''bytes'' demo_world) = Inr ''/tmp/scank3x9.pdf'' \<and>
   returned (single_task_recognition quiet_env ''/tmp/scank3x9.pdf'' ''/tmp/monkeyocr_text_q7''
     ''text'') = Inr ''/tmp/monkeyocr_text_q7'' \<and>
   \<not> str_contains ''page.log'' ''_text_result'' \<and>
   fst (perform_ocr_task quiet_env demo_upload ''text'' demo_world) =
     \<lparr>success = False, task_type = ''text'', content = [],
      message = Some ''OCR task failed: No result file generated'', config = None\<rparr>"
proof -
  let ?P = "''/tmp/scank3x9.pdf''" and ?D = "''/tmp/monkeyocr_text_q7''"
  have m: "monkey_ocr_model quiet_env" by (simp add: quiet_env_fields)
  have e: "lower (path_suffix (filename demo_upload)) \<in> set allowed_extensions"
    by (simp add: demo_suffixes allowed_extensions_def)
  have s: "stage_upload quiet_env (path_stem (filename demo_upload))
              (lower (path_suffix (filename demo_upload))) (payload demo_upload) demo_world =
            (Inr ?P, staged_world ?P)"
    by (simp add: demo_suffixes demo_stage_any quiet_env_fields)
  have r: "returned (single_task_recognition quiet_env ?P ?D ''text'') = Inr ?D"
    by (simp add: quiet_env_fields empty_recognition_def)
  have l: "os_listdir ?D (run_effects (single_task_recognition quiet_env ?P ?D ''text'')
             (put ?D Dir (staged_world ?P))) = Inr [''page.log'']"
    by (simp add: quiet_env_fields quiet_listdir)
  have c: "\<not> str_contains ''page.log'' ''_text_result''"
    by (simp add: startswith_def)
  then have a: "\<forall>n\<in>set [''page.log'']. \<not> str_contains n (''_'' @ ''text'' @ ''_result'')"
    by simp
  from missing_result_is_in_band_failure [OF m e s quiet_mkdtemp r l a] m e s r c
  show ?thesis by (simp add: demo_suffixes)
qed

section \<open>Log upload\<close>

















section \<open>A full parse of the sample document\<close>

lemma parse_step_mkdtemp:
  "mkdtemp demo_env ''monkeyocr_parse_'' (staged_world ''/tmp/tmpk3x9.pdf'') =
     (Inr ''/tmp/monkeyocr_parse_q7'',
      \<lparr>nodes = (''/tmp/monkeyocr_parse_q7'', Dir) #
                (''/tmp/tmpk3x9.pdf'', File (Data ''bytes'')) # nodes demo_world,
       s3_client = False,
       trace = [Created ''/tmp/tmpk3x9.pdf'', Wrote ''/tmp/tmpk3x9.pdf'']\<rparr>)"
  by (simp add: mkdtemp_def demo_env_fields Let_def fs_defs staged_world_def demo_world_def)

lemma parse_step_run:
  "run_effects (demo_parse_pdf ''/tmp/tmpk3x9.pdf'' ''/tmp/monkeyocr_parse_q7'')
     \<lparr>nodes = (''/tmp/monkeyocr_parse_q7'', Dir) #
               (''/tmp/tmpk3x9.pdf'', File (Data ''bytes'')) # nodes demo_world,
      s3_client = False,
      trace = [Created ''/tmp/tmpk3x9.pdf'', Wrote ''/tmp/tmpk3x9.pdf'']\<rparr> =
   \<lparr>nodes = parsed_nodes @ (''/tmp/tmpk3x9.pdf'', File (Data ''bytes'')) # nodes demo_world,
    s3_client = False,
    trace = [Created ''/tmp/tmpk3x9.pdf'', Wrote ''/tmp/tmpk3x9.pdf'']\<rparr>"
  by (simp add: run_effects_def demo_parse_pdf_def make_dir_def write_file_def lookup_def put_def
      demo_world_def parsed_nodes_def)

lemma str_int_demo: "str_int 1700000000 = ''1700000000''"
  by (simp add: str_int_def digits.simps digit_char_def)

lemma parse_step_walk:
  "os_walk ''/tmp/monkeyocr_parse_q7/report'' ran_world =
     [(''/tmp/monkeyocr_parse_q7/report/images'', ''fig1.png''),
      (''/tmp/monkeyocr_parse_q7/report'', ''report_content_list.json''),
      (''/tmp/monkeyocr_parse_q7/report'', ''report.md'')]"
  by (simp add: os_walk_def ran_world_def parsed_nodes_def demo_world_def lookup_def under_def
      startswith_def os_path_dirname_def os_path_basename_def)

lemma parse_step_exists: "os_path_exists ''/tmp/monkeyocr_parse_q7/report'' ran_world"
  by (simp add: os_path_exists_def ran_world_def parsed_nodes_def lookup_def)

lemma parse_step_open:
  "zipfile_open ''/app/tmp/doc_parsed_1700000000.zip'' ran_world =
     (Inr (), zipped_world (File (Archive [])))"
  by (simp add: zipfile_open_def zipped_world_def ran_world_def parsed_nodes_def demo_world_def
      lookup_def put_def os_path_dirname_def)

lemma parse_step_put:
  "put ''/app/tmp/doc_parsed_1700000000.zip'' archive (zipped_world (File (Archive []))) =
     zipped_world archive"
  by (simp add: zipped_world_def put_def ran_world_def parsed_nodes_def demo_world_def)

lemma parse_step_walk_zipped:
  "os_walk ''/tmp/monkeyocr_parse_q7/report'' (zipped_world a) =
     [(''/tmp/monkeyocr_parse_q7/report/images'', ''fig1.png''),
      (''/tmp/monkeyocr_parse_q7/report'', ''report_content_list.json''),
      (''/tmp/monkeyocr_parse_q7/report'', ''report.md'')]"
  by (simp add: os_walk_def zipped_world_def ran_world_def parsed_nodes_def demo_world_def
      lookup_def under_def startswith_def os_path_dirname_def os_path_basename_def)

lemma parse_step_blobs:
  "read_blob ''/tmp/monkeyocr_parse_q7/report/images/fig1.png'' (zipped_world a) = Data ''PNG''"
  "read_blob ''/tmp/monkeyocr_parse_q7/report/report_content_list.json'' (zipped_world a) = Data ''[]''"
  "read_blob ''/tmp/monkeyocr_parse_q7/report/report.md'' (zipped_world a) = Data ''# Report''"
  by (simp_all add: read_blob_def lookup_def zipped_world_def ran_world_def parsed_nodes_def)

lemma parse_step_names:
  "new_filename ''doc'' ''/tmp/monkeyocr_parse_q7/report''
     ''/tmp/monkeyocr_parse_q7/report/images/fig1.png'' ''fig1.png'' = ''images/doc_fig1.png''"
  "new_filename ''doc'' ''/tmp/monkeyocr_parse_q7/report''
     ''/tmp/monkeyocr_parse_q7/report/report_content_list.json'' ''report_content_list.json'' =
     ''doc_content_list.json''"
  "new_filename ''doc'' ''/tmp/monkeyocr_parse_q7/report''
     ''/tmp/monkeyocr_parse_q7/report/report.md'' ''report.md'' = ''doc.md''"
  by (simp_all add: new_filename_def os_path_relpath_def under_def startswith_def endswith_def
      os_path_basename_def Let_def)

lemma parse_step_joins:
  "os_path_join ''/tmp/monkeyocr_parse_q7/report/images'' ''fig1.png'' =
     ''/tmp/monkeyocr_parse_q7/report/images/fig1.png''"
  "os_path_join ''/tmp/monkeyocr_parse_q7/report'' ''report_content_list.json'' =
     ''/tmp/monkeyocr_parse_q7/report/report_content_list.json''"
  "os_path_join ''/tmp/monkeyocr_parse_q7/report'' ''report.md'' =
     ''/tmp/monkeyocr_parse_q7/report/report.md''"
  by (simp_all add: os_path_join_def startswith_def endswith_def)

lemma parse_step_entries:
  "zip_entries ''doc'' ''/tmp/monkeyocr_parse_q7/report'' (zipped_world a) =
     [(''images/doc_fig1.png'', Data ''PNG''), (''doc_content_list.json'', Data ''[]''),
      (''doc.md'', Data ''# Report'')]"
  unfolding zip_entries_def parse_step_walk_zipped
  by (simp add: Let_def parse_step_joins parse_step_names parse_step_blobs)

lemma parse_step_try:
  "parse_document_try demo_env ''/tmp/tmpk3x9.pdf'' ''doc'' (staged_world ''/tmp/tmpk3x9.pdf'') =
     (Inr \<lparr>parse_success = True,
           parse_message = ''Document parsing completed successfully'',
           output_dir = Some ''/tmp/monkeyocr_parse_q7/report'',
           files = Some [''images/fig1.png'', ''report_content_list.json'', ''report.md''],
           download_url = Some ''/static/doc_parsed_1700000000.zip''\<rparr>,
      zipped_world parsed_archive)"
proof -
  have run: "run_effects (demo_parse_pdf ''/tmp/tmpk3x9.pdf'' ''/tmp/monkeyocr_parse_q7'')
     \<lparr>nodes = (''/tmp/monkeyocr_parse_q7'', Dir) #
               (''/tmp/tmpk3x9.pdf'', File (Data ''bytes'')) # nodes demo_world,
      s3_client = False,
      trace = [Created ''/tmp/tmpk3x9.pdf'', Wrote ''/tmp/tmpk3x9.pdf'']\<rparr> = ran_world"
    by (simp add: parse_step_run ran_world_def)
  have ret: "returned (demo_parse_pdf ''/tmp/tmpk3x9.pdf'' ''/tmp/monkeyocr_parse_q7'') =
      Inr ''/tmp/monkeyocr_parse_q7/report''"
    by (simp add: demo_parse_pdf_def)
  have zn: "''doc'' @ ''_parsed_'' @ str_int 1700000000 @ ''.zip''
      = ''doc_parsed_1700000000.zip''"
    by (simp add: str_int_demo)
  have zp: "os_path_join ''/app/tmp'' ''doc_parsed_1700000000.zip''
      = ''/app/tmp/doc_parsed_1700000000.zip''"
    by (simp add: os_path_join_def startswith_def endswith_def)
  have ls: "map (\<lambda>(root, fname). os_path_relpath (os_path_join root fname)
                 ''/tmp/monkeyocr_parse_q7/report'')
              (os_walk ''/tmp/monkeyocr_parse_q7/report'' ran_world) =
            [''images/fig1.png'', ''report_content_list.json'', ''report.md'']"
    unfolding parse_step_walk
    by (simp add: parse_step_joins os_path_relpath_def under_def startswith_def)
  show ?thesis
    unfolding parse_document_try_def parse_step_mkdtemp demo_env_fields
    by (simp only: Let_def run ret zn zp ls parse_step_exists parse_step_open parse_step_entries
        parse_step_put parsed_archive_def prod.case sum.case option.case if_True append_Nil) simp
qed

lemma demo_parse_run:
  "parse_document demo_env demo_pdf demo_world =
     (Inr \<lparr>parse_success = True,
           parse_message = ''Document parsing completed successfully'',
           output_dir = Some ''/tmp/monkeyocr_parse_q7/report'',
           files = Some [''images/fig1.png'', ''report_content_list.json'', ''report.md''],
           download_url = Some ''/static/doc_parsed_1700000000.zip''\<rparr>,
      emit (Unlinked ''/tmp/tmpk3x9.pdf'') (remove ''/tmp/tmpk3x9.pdf'' (zipped_world parsed_archive)))"
proof -
  have n: "join ''.'' (butlast (split_char CHR ''.'' (filename demo_pdf))) = ''doc''"
    by (simp add: demo_pdf_def)
  have f: "is_file ''/tmp/tmpk3x9.pdf'' (zipped_world parsed_archive)"
    by (simp add: is_file_def lookup_def zipped_world_def ran_world_def parsed_nodes_def)
  have e: "endswith (lower (filename demo_pdf)) ''.pdf''"
    by (simp add: demo_suffixes endswith_def)
  have m: "monkey_ocr_model demo_env" by (simp add: demo_env_fields)
  have s: "stage_upload demo_env ''tmp'' ''.pdf'' (payload demo_pdf) demo_world =
            (Inr ''/tmp/tmpk3x9.pdf'', staged_world ''/tmp/tmpk3x9.pdf'')"
    by (simp add: demo_suffixes demo_stage_any demo_env_fields)
  have "parse_document_body demo_env demo_pdf demo_world =
          finally_unlink ''/tmp/tmpk3x9.pdf''
            (parse_document_try demo_env ''/tmp/tmpk3x9.pdf'' ''doc''
               (staged_world ''/tmp/tmpk3x9.pdf''))"
    using m e s n by (simp add: parse_document_body_def Let_def)
  then show ?thesis
    using f by (simp add: parse_document_def parse_step_try finally_unlink_file)
qed

text \<open>
  Claim C6 at the sample deployment. A full parse of \<^verbatim>\<open>doc.pdf\<close> succeeds and returns
  the download URL \<^verbatim>\<open>/static/doc_parsed_1700000000.zip\<close>. The archive is written to
  \<^verbatim>\<open>/app/tmp\<close>, where \<^verbatim>\<open>/download/{filename}\<close> finds it; the static mount serves
  \<^verbatim>\<open>/workspace/MonkeyOCR/app/temp\<close>, where it is not, so the returned URL resolves to
  nothing.
\<close>

theorem download_url_not_served:
  "fst (parse_document demo_env demo_pdf demo_world) =
     Inr \<lparr>parse_success = True,
          parse_message = ''Document parsing completed successfully'',
          output_dir = Some ''/tmp/monkeyocr_parse_q7/report'',
          files = Some [''images/fig1.png'', ''report_content_list.json'', ''report.md''],
          download_url = Some ''/static/doc_parsed_1700000000.zip''\<rparr> \<and>
   lookup ''/app/tmp/doc_parsed_1700000000.zip'' (snd (parse_document demo_env demo_pdf demo_world)) =
     Some parsed_archive \<and>
   download_file ''doc_parsed_1700000000.zip'' (snd (parse_document demo_env demo_pdf demo_world)) =
     Inr \<lparr>response_path = ''/app/tmp/doc_parsed_1700000000.zip'',
          response_filename = ''doc_parsed_1700000000.zip'',
          media_type = ''application/octet-stream''\<rparr> \<and>
   static_mount ''/static/doc_parsed_1700000000.zip''
     (snd (parse_document demo_env demo_pdf demo_world)) = None"
proof -
  have z: "lookup ''/app/tmp/doc_parsed_1700000000.zip'' (zipped_world parsed_archive) =
             Some parsed_archive"
    by (simp add: lookup_def zipped_world_def)
  have t: "lookup ''/workspace/MonkeyOCR/app/temp/doc_parsed_1700000000.zip''
             (zipped_world parsed_archive) = None"
    by (simp add: lookup_def zipped_world_def ran_world_def parsed_nodes_def demo_world_def)
  have j: "os_path_join ''/app/tmp'' ''doc_parsed_1700000000.zip'' =
             ''/app/tmp/doc_parsed_1700000000.zip''"
      "os_path_join temp_dir ''doc_parsed_1700000000.zip'' =
             ''/workspace/MonkeyOCR/app/temp/doc_parsed_1700000000.zip''"
    by (simp_all add: os_path_join_def startswith_def endswith_def temp_dir_def)
  show ?thesis
    by (simp add: demo_parse_run download_file_def static_mount_def os_path_exists_def
        startswith_def j z t)
qed









end
